theory Spec2Isabelle
  imports Main
begin

section \<open>Text helpers of the analysis tab\<close>

text \<open>
  The page \<^verbatim>\<open>pages/3_Asistente_IA.py\<close> is a Streamlit script. Its interactive analyst
  tab asks the language model for a pandas script, strips the code fences, runs the script
  with \<^verbatim>\<open>exec\<close> while \<^verbatim>\<open>sys.stdout\<close> is swapped for a \<^verbatim>\<open>StringIO\<close>, and asks the model
  a second time to phrase the captured text as an answer.

  Python text is modelled as \<^typ>\<open>string\<close>; every character stands for one code point
  below 256.
\<close>

text \<open>
  \<^verbatim>\<open>str.strip()\<close> with no argument removes leading and trailing whitespace. The code
  points below 256 that \<^verbatim>\<open>str.isspace\<close> accepts are 9 to 13, 28 to 32, 133 and 160.
\<close>

definition py_isspace :: "char \<Rightarrow> bool" where
  "py_isspace c =
     (let n = (of_char c :: nat)
      in (9 \<le> n \<and> n \<le> 13) \<or> (28 \<le> n \<and> n \<le> 32) \<or> n = 133 \<or> n = 160)"

definition py_strip :: "string \<Rightarrow> string" where
  "py_strip s = rev (dropWhile py_isspace (rev (dropWhile py_isspace s)))"

text \<open>
  \<^verbatim>\<open>s.replace(old, new)\<close>: the occurrences of \<open>old\<close> are found scanning left to right
  without overlap. \<open>reemplazar_desde\<close> is the scan for a non-empty \<open>old\<close>; for the empty
  \<open>old\<close> Python puts \<open>new\<close> before every character and at the end.
\<close>

function reemplazar_desde :: "string \<Rightarrow> string \<Rightarrow> string \<Rightarrow> string" where
  "reemplazar_desde old new s =
     (if old = [] \<or> s = [] then s
      else if take (length old) s = old
           then new @ reemplazar_desde old new (drop (length old) s)
           else hd s # reemplazar_desde old new (tl s))"
  by pat_completeness auto
termination
  by (relation "measure (\<lambda>(old, new, s). length s)") (auto simp: neq_Nil_conv)

declare reemplazar_desde.simps [simp del]

definition py_replace :: "string \<Rightarrow> string \<Rightarrow> string \<Rightarrow> string" where
  "py_replace old new s =
     (if old = [] then new @ concat (map (\<lambda>c. c # new) s)
      else reemplazar_desde old new s)"

text \<open>The substring test \<^verbatim>\<open>pat in s\<close>.\<close>

fun py_in :: "string \<Rightarrow> string \<Rightarrow> bool" where
  "py_in pat [] = (pat = [])"
| "py_in pat (c # cs) = (take (length pat) (c # cs) = pat \<or> py_in pat cs)"

definition fence_python :: string where
  "fence_python = ''```python''"

definition fence :: string where
  "fence = ''```''"

text \<open>
  Line 144:
  \<^verbatim>\<open>codigo_generado = respuesta_ia.text.strip().replace("```python", "").replace("```", "")\<close>
\<close>

definition limpiar_codigo :: "string \<Rightarrow> string" where
  "limpiar_codigo texto =
     py_replace fence [] (py_replace fence_python [] (py_strip texto))"

section \<open>Python values, exceptions and dataframes\<close>

text \<open>
  The exceptions the page can meet. \<^verbatim>\<open>except Exception\<close> (line 171) catches the
  subclasses of \<^verbatim>\<open>Exception\<close>; \<^verbatim>\<open>SystemExit\<close> and \<^verbatim>\<open>KeyboardInterrupt\<close> derive from
  \<^verbatim>\<open>BaseException\<close> only. \<open>RaisedException\<close> is any other \<^verbatim>\<open>Exception\<close> subclass, by
  its name; \<open>ModelError\<close> is a failure of \<^verbatim>\<open>model.generate_content\<close> or of reading
  \<^verbatim>\<open>.text\<close>.
\<close>

datatype exn =
    NameError string
  | SyntaxError
  | TypeError
  | AttributeError
  | ValueError
  | ModuleNotFoundError string
  | RaisedException string
  | ModelError string
  | SystemExit
  | KeyboardInterrupt

fun is_Exception :: "exn \<Rightarrow> bool" where
  "is_Exception SystemExit = False"
| "is_Exception KeyboardInterrupt = False"
| "is_Exception _ = True"

text \<open>
  Values. \<open>VFrame a\<close> is a reference to the dataframe stored at address \<open>a\<close>;
  \<open>VBuiltin n\<close> is the object the builtins bind to the name \<open>n\<close>; \<open>VBuiltinsDict\<close> is the
  dictionary of the builtins; \<open>VOtro r\<close> is any other object, by its \<^verbatim>\<open>repr\<close>.
\<close>

datatype pyval =
    VNone
  | VInt int
  | VStr string
  | VFrame nat
  | VModule string
  | VBuiltin string
  | VBuiltinsDict
  | VOtro string

text \<open>
  A dataframe: column names, one dtype name per column, and the rows. Dataframes are
  objects, kept in a store by address.
\<close>

record dataframe =
  columnas :: "string list"
  dtypes :: "string list"
  filas :: "pyval list list"

type_synonym store = "nat \<Rightarrow> dataframe"

text \<open>\<^verbatim>\<open>DataFrame.empty\<close>: some axis has length 0.\<close>

definition df_empty :: "dataframe \<Rightarrow> bool" where
  "df_empty d = (columnas d = [] \<or> filas d = [])"

datatype lit = LInt int | LStr string

fun lit_val :: "lit \<Rightarrow> pyval" where
  "lit_val (LInt i) = VInt i"
| "lit_val (LStr s) = VStr s"

fun lit_dtype :: "lit \<Rightarrow> string" where
  "lit_dtype (LInt i) = ''int64''"
| "lit_dtype (LStr s) = ''object''"

text \<open>
  \<^verbatim>\<open>df[col] = scalar\<close>: the scalar fills every column named \<open>col\<close>; when there is none,
  a new column is appended.
\<close>

definition frame_setitem :: "string \<Rightarrow> lit \<Rightarrow> dataframe \<Rightarrow> dataframe" where
  "frame_setitem col v d =
     (if col \<in> set (columnas d)
      then d\<lparr>dtypes := map (\<lambda>(c, t). if c = col then lit_dtype v else t) (zip (columnas d) (dtypes d)),
             filas := map (\<lambda>r. map (\<lambda>(c, x). if c = col then lit_val v else x) (zip (columnas d) r)) (filas d)\<rparr>
      else d\<lparr>columnas := columnas d @ [col],
             dtypes := dtypes d @ [lit_dtype v],
             filas := map (\<lambda>r. r @ [lit_val v]) (filas d)\<rparr>)"

text \<open>\<^verbatim>\<open>str(n)\<close> for an integer: decimal digits, with a minus sign when negative.\<close>

function digitos :: "nat \<Rightarrow> string" where
  "digitos n =
     (if n < 10 then [''0123456789'' ! n]
      else digitos (n div 10) @ [''0123456789'' ! (n mod 10)])"
  by pat_completeness auto
termination
  by (relation "measure (\<lambda>n. n)") auto

declare digitos.simps [simp del]

definition str_int :: "int \<Rightarrow> string" where
  "str_int i = (if i < 0 then CHR ''-'' # digitos (nat (- i)) else digitos (nat i))"


section \<open>The host process\<close>

text \<open>
  The state of the host process that the tab and the code it executes read and change.

  \<^verbatim>\<open>sys.stdout\<close> refers to a stream object: the console of the process (the object
  \<^verbatim>\<open>sys.__stdout__\<close>), a \<^verbatim>\<open>StringIO\<close> by its allocation index, or some other object
  (\<^verbatim>\<open>None\<close>, a file, an object of a class of the script). Of such an object the page can
  only observe what \<^verbatim>\<open>getvalue()\<close> gives and whether a write raises. A \<^verbatim>\<open>StringIO\<close> is
  open with its text, or closed.

  \<open>ui\<close>, \<open>llm_log\<close> and \<open>exec_log\<close> record the calls made by the statements of the page
  itself: what it asked Streamlit to show, the prompts it passed to
  \<^verbatim>\<open>model.generate_content\<close>, and the code it passed to \<^verbatim>\<open>exec\<close>.
\<close>

datatype stream = Console | Buffer nat | Otro "exn + string" "exn option"

datatype sio = Abierto string | Cerrado

datatype mensaje =
    NoSePudieronCargar \<comment> \<open>line 24: the data could not be loaded from the API\<close>
  | NoMotorIA \<comment> \<open>line 112: no connection with the model\<close>
  | EscribePregunta \<comment> \<open>line 113: please write a question\<close>
  | NoHayDatos \<comment> \<open>line 114: no data for the selected filters\<close>
  | Oops \<comment> \<open>line 172: an error happened while processing the question\<close>

text \<open>
  The two prompts are f-strings over fixed templates; a prompt is kept as the template's
  name with the values of its slots.
\<close>

datatype prompt =
    PromptAgente "string list" "string list" string
  | PromptInterprete string string

datatype widget =
    StError mensaje
  | StWarning mensaje
  | StCode string
  | StTitulo
  | StSuccess string
  | StException exn

record host =
  sys_stdout :: stream
  console :: string
  buffers :: "sio list"
  frames :: store
  ui :: "widget list"
  llm_log :: "prompt list"
  exec_log :: "string list"

definition st :: "widget \<Rightarrow> host \<Rightarrow> host" where
  "st w h = h\<lparr>ui := ui h @ [w]\<rparr>"

text \<open>
  \<^verbatim>\<open>sys.stdout.write(t)\<close>: the text goes to the object \<^verbatim>\<open>sys.stdout\<close> refers to. Writing to
  a closed \<^verbatim>\<open>StringIO\<close> raises \<^verbatim>\<open>ValueError\<close>. (\<^verbatim>\<open>StringIO\<close> objects are only ever added, so
  an index always has its object; the model answers \<^verbatim>\<open>ValueError\<close> for an index without.)
\<close>

definition stdout_write :: "string \<Rightarrow> host \<Rightarrow> exn + host" where
  "stdout_write t h =
     (case sys_stdout h of
        Console \<Rightarrow> Inr (h\<lparr>console := console h @ t\<rparr>)
      | Buffer i \<Rightarrow>
          (if i < length (buffers h)
           then (case buffers h ! i of
                   Abierto s \<Rightarrow> Inr (h\<lparr>buffers := (buffers h)[i := Abierto (s @ t)]\<rparr>)
                 | Cerrado \<Rightarrow> Inl ValueError)
           else Inl ValueError)
      | Otro gv w \<Rightarrow> (case w of None \<Rightarrow> Inr h | Some x \<Rightarrow> Inl x))"

text \<open>
  \<^verbatim>\<open>sys.stdout.getvalue()\<close>: an open \<^verbatim>\<open>StringIO\<close> gives its text, a closed one raises
  \<^verbatim>\<open>ValueError\<close>; the console stream has no such method.
\<close>

definition stdout_getvalue :: "host \<Rightarrow> exn + string" where
  "stdout_getvalue h =
     (case sys_stdout h of
        Console \<Rightarrow> Inl AttributeError
      | Buffer i \<Rightarrow>
          (if i < length (buffers h)
           then (case buffers h ! i of Abierto s \<Rightarrow> Inr s | Cerrado \<Rightarrow> Inl ValueError)
           else Inl ValueError)
      | Otro gv w \<Rightarrow> gv)"


section \<open>The interpreter environment and executed code\<close>

text \<open>
  What the Python process gives to executed code and this page does not define: the names
  of the \<^verbatim>\<open>builtins\<close> module (each a function or another object, or an exception class with
  the exception that raising it gives), the importable modules with, for each, what a call
  \<^verbatim>\<open>m.f()\<close> of a function without other effect returns at this moment (the clock, the
  working directory), and the text \<^verbatim>\<open>str()\<close> gives for objects and for dataframes.
\<close>

datatype builtin = Funcion | Clase_excepcion exn

record entorno =
  builtins :: "string \<rightharpoonup> builtin"
  modulos :: "string \<rightharpoonup> (string \<rightharpoonup> pyval)"
  str_objeto :: "pyval \<Rightarrow> string"
  str_frame :: "dataframe \<Rightarrow> string"

type_synonym namespace = "string \<rightharpoonup> pyval"

text \<open>
  The generated script is arbitrary Python. A compiled script is modelled by what its
  execution does: given the interpreter environment, the globals dictionary and the state
  of the process, how it ends (\<open>None\<close>: normally, or the exception that leaves it) and the
  state it leaves. A script can do anything to the streams and to the dataframes: rebind
  \<^verbatim>\<open>sys.stdout\<close>, write to the console, close or rewrite a \<^verbatim>\<open>StringIO\<close>, change a dataframe
  in place. Only executions that return are modelled.

  The compiler of the Python process is the parameter \<open>compilar\<close>: for a text it gives the
  compiled script, or the exception the compilation raises.
\<close>

type_synonym script = "entorno \<Rightarrow> namespace \<Rightarrow> host \<Rightarrow> exn option \<times> host"

type_synonym compilador = "string \<Rightarrow> exn + script"

text \<open>
  The records of the page's own calls are not state of the process: a script neither reads
  them (\<open>vista\<close>) nor writes them (\<open>efectos\<close> keeps, of the state a script leaves, the
  streams and the dataframes).
\<close>

definition vista :: "host \<Rightarrow> host" where
  "vista h = h\<lparr>ui := [], llm_log := [], exec_log := []\<rparr>"

definition efectos :: "host \<Rightarrow> host \<Rightarrow> host" where
  "efectos hs h =
     h\<lparr>sys_stdout := sys_stdout hs, console := console hs, buffers := buffers hs, frames := frames hs\<rparr>"

text \<open>
  \<^verbatim>\<open>exec(codigo, globals)\<close>. A globals dictionary without the key \<^verbatim>\<open>__builtins__\<close> receives
  it from \<^verbatim>\<open>exec\<close>, bound to the dictionary of the builtins; the names of the builtins are
  then resolved after those of the dictionary.
\<close>

definition py_exec ::
  "entorno \<Rightarrow> compilador \<Rightarrow> string \<Rightarrow> namespace \<Rightarrow> host \<Rightarrow> exn option \<times> host" where
  "py_exec E compilar codigo g h =
     (let h0 = h\<lparr>exec_log := exec_log h @ [codigo]\<rparr>;
          g0 = (case g ''__builtins__'' of
                  None \<Rightarrow> g(''__builtins__'' \<mapsto> VBuiltinsDict)
                | Some b \<Rightarrow> g)
      in case compilar codigo of
           Inl x \<Rightarrow> (Some x, h0)
         | Inr s \<Rightarrow> (case s E g0 (vista h0) of (r, hs) \<Rightarrow> (r, efectos hs h0)))"


section \<open>A fragment of Python with its execution\<close>

text \<open>
  Some scripts are given by their statements. The fragment has five forms of statement,
  each one a form of Python source:
  \<^item> \<open>SExpr e\<close>: the expression statement \<^verbatim>\<open>e\<close>;
  \<^item> \<open>SPrint e fin\<close>: \<^verbatim>\<open>print(e, end=fin)\<close>, with \<open>fin\<close> a string literal;
  \<^item> \<open>SSetCol col v\<close>: \<^verbatim>\<open>df[col] = v\<close> for string literal \<open>col\<close> and a literal \<open>v\<close>;
  \<^item> \<open>SRaise n\<close>: \<^verbatim>\<open>raise n\<close> for a name \<open>n\<close>;
  \<^item> \<open>SStdoutOriginal\<close>: \<^verbatim>\<open>__import__('sys').stdout = __import__('sys').__stdout__\<close>.
  Expressions are integer and string literals, names, and \<open>EImportCall m f\<close>, the call
  \<^verbatim>\<open>__import__('m').f()\<close>. No statement of the fragment binds a name, so the globals
  dictionary stays as \<^verbatim>\<open>exec\<close> received it.
\<close>

datatype expr =
    ELit lit
  | EName string
  | EImportCall string string

datatype stmt =
    SExpr expr
  | SPrint expr string
  | SSetCol string lit
  | SRaise string
  | SStdoutOriginal

text \<open>
  Name resolution in code run by \<^verbatim>\<open>exec(code, globals)\<close>: the globals dictionary first,
  then the builtins; a name in neither raises \<^verbatim>\<open>NameError\<close>.
\<close>

definition lookup_name :: "entorno \<Rightarrow> namespace \<Rightarrow> string \<Rightarrow> exn + pyval" where
  "lookup_name E g n =
     (case g n of
        Some v \<Rightarrow> Inr v
      | None \<Rightarrow> (case builtins E n of Some b \<Rightarrow> Inr (VBuiltin n) | None \<Rightarrow> Inl (NameError n)))"

text \<open>
  \<^verbatim>\<open>__import__\<close> is an ordinary name. Calling a value that is not callable (the module, the
  dataframe and the dictionary that the globals bind) raises \<^verbatim>\<open>TypeError\<close>.
\<close>

fun eval_expr :: "entorno \<Rightarrow> namespace \<Rightarrow> expr \<Rightarrow> exn + pyval" where
  "eval_expr E g (ELit l) = Inr (lit_val l)"
| "eval_expr E g (EName n) = lookup_name E g n"
| "eval_expr E g (EImportCall m f) =
     (case lookup_name E g ''__import__'' of
        Inl x \<Rightarrow> Inl x
      | Inr imp \<Rightarrow>
          if imp \<noteq> VBuiltin ''__import__'' then Inl TypeError
          else (case modulos E m of
                  None \<Rightarrow> Inl (ModuleNotFoundError m)
                | Some tabla \<Rightarrow> (case tabla f of None \<Rightarrow> Inl AttributeError | Some v \<Rightarrow> Inr v)))"

definition py_str :: "entorno \<Rightarrow> store \<Rightarrow> pyval \<Rightarrow> string" where
  "py_str E fr v =
     (case v of
        VNone \<Rightarrow> ''None''
      | VInt i \<Rightarrow> str_int i
      | VStr s \<Rightarrow> s
      | VFrame a \<Rightarrow> str_frame E (fr a)
      | _ \<Rightarrow> str_objeto E v)"

text \<open>
  One statement, run with the globals \<open>g\<close> in the process state \<open>h\<close>: the exception it raises,
  if any, and the state it leaves. \<^verbatim>\<open>print\<close> is an ordinary name, resolved before the
  argument is evaluated; the text goes through \<^verbatim>\<open>sys.stdout\<close>. \<^verbatim>\<open>raise n\<close> raises an
  instance of the exception class \<open>n\<close>; any other value gives \<^verbatim>\<open>TypeError\<close>, and so does an
  item assignment on a module.
\<close>

fun paso :: "entorno \<Rightarrow> namespace \<Rightarrow> stmt \<Rightarrow> host \<Rightarrow> exn option \<times> host" where
  "paso E g (SExpr e) h =
     (case eval_expr E g e of Inl x \<Rightarrow> (Some x, h) | Inr v \<Rightarrow> (None, h))"
| "paso E g (SPrint e fin) h =
     (case lookup_name E g ''print'' of
        Inl x \<Rightarrow> (Some x, h)
      | Inr p \<Rightarrow>
          (case eval_expr E g e of
             Inl x \<Rightarrow> (Some x, h)
           | Inr v \<Rightarrow>
               if p \<noteq> VBuiltin ''print'' then (Some TypeError, h)
               else (case stdout_write (py_str E (frames h) v @ fin) h of
                       Inl x \<Rightarrow> (Some x, h)
                     | Inr h' \<Rightarrow> (None, h'))))"
| "paso E g (SSetCol col v) h =
     (case lookup_name E g ''df'' of
        Inl x \<Rightarrow> (Some x, h)
      | Inr (VFrame a) \<Rightarrow> (None, h\<lparr>frames := (frames h)(a := frame_setitem col v (frames h a))\<rparr>)
      | Inr _ \<Rightarrow> (Some TypeError, h))"
| "paso E g (SRaise n) h =
     (case lookup_name E g n of
        Inl x \<Rightarrow> (Some x, h)
      | Inr (VBuiltin b) \<Rightarrow>
          (case builtins E b of
             Some (Clase_excepcion x) \<Rightarrow> (Some x, h)
           | _ \<Rightarrow> (Some TypeError, h))
      | Inr _ \<Rightarrow> (Some TypeError, h))"
| "paso E g SStdoutOriginal h =
     (case lookup_name E g ''__import__'' of
        Inl x \<Rightarrow> (Some x, h)
      | Inr imp \<Rightarrow>
          if imp \<noteq> VBuiltin ''__import__'' then (Some TypeError, h)
          else (None, h\<lparr>sys_stdout := Console\<rparr>))"

text \<open>
  The script made of the statements \<open>ss\<close>: they run in order, and the first exception ends
  the execution.
\<close>

fun interpretar :: "stmt list \<Rightarrow> entorno \<Rightarrow> namespace \<Rightarrow> host \<Rightarrow> exn option \<times> host" where
  "interpretar [] E g h = (None, h)"
| "interpretar (s # ss) E g h =
     (case paso E g s h of
        (Some x, h') \<Rightarrow> (Some x, h')
      | (None, h') \<Rightarrow> interpretar ss E g h')"


section \<open>The analyst tab\<close>

text \<open>The dictionary of line 150: \<^verbatim>\<open>{'pd': pd, 'df': df}\<close>.\<close>

definition globales :: "nat \<Rightarrow> namespace" where
  "globales df = [''pd'' \<mapsto> VModule ''pandas'', ''df'' \<mapsto> VFrame df]"

text \<open>
  Lines 148 to 152:
  \<^verbatim>\<open>
  df = df_filtrado
  old_stdout, sys.stdout = sys.stdout, StringIO()
  exec(codigo_generado, {'pd': pd, 'df': df})
  resultado_analisis = sys.stdout.getvalue()
  sys.stdout = old_stdout
  \<close>
  The result is the exception that left the block, or \<open>resultado_analisis\<close>.
\<close>

definition ejecutar ::
  "entorno \<Rightarrow> compilador \<Rightarrow> string \<Rightarrow> nat \<Rightarrow> host \<Rightarrow> (exn + string) \<times> host" where
  "ejecutar E compilar codigo_generado df_filtrado h =
     (let df = df_filtrado;
          old_stdout = sys_stdout h;
          h1 = h\<lparr>sys_stdout := Buffer (length (buffers h)), buffers := buffers h @ [Abierto []]\<rparr>
      in case py_exec E compilar codigo_generado (globales df) h1 of
           (Some x, h2) \<Rightarrow> (Inl x, h2)
         | (None, h2) \<Rightarrow>
             (case stdout_getvalue h2 of
                Inl x \<Rightarrow> (Inl x, h2)
              | Inr resultado_analisis \<Rightarrow> (Inr resultado_analisis, h2\<lparr>sys_stdout := old_stdout\<rparr>)))"

text \<open>
  \<^verbatim>\<open>model.generate_content(prompt)\<close>. The model is outside the page: it is a function of
  the number of calls made before and of the prompt. The call may raise (\<open>Inl\<close>);
  otherwise it returns a response, and reading \<^verbatim>\<open>.text\<close> of a response gives the text or
  raises in its turn.
\<close>

type_synonym respuesta = "exn + string"

type_synonym modelo = "nat \<Rightarrow> prompt \<Rightarrow> exn + respuesta"

definition generate_content :: "modelo \<Rightarrow> prompt \<Rightarrow> host \<Rightarrow> (exn + respuesta) \<times> host" where
  "generate_content model p h = (model (length (llm_log h)) p, h\<lparr>llm_log := llm_log h @ [p]\<rparr>)"

text \<open>The body of the \<^verbatim>\<open>try\<close> (lines 143 to 170): the exception that leaves it, if any.\<close>

definition analizar_try ::
  "entorno \<Rightarrow> modelo \<Rightarrow> compilador \<Rightarrow> string \<Rightarrow> nat \<Rightarrow> prompt \<Rightarrow> host \<Rightarrow> exn option \<times> host" where
  "analizar_try E model compilar pregunta_usuario df_filtrado prompt_agente h =
     (case generate_content model prompt_agente h of
        (Inl x, h1) \<Rightarrow> (Some x, h1)
      | (Inr respuesta_ia, h1) \<Rightarrow>
          (case respuesta_ia of
             Inl x \<Rightarrow> (Some x, h1)
           | Inr texto \<Rightarrow>
               (let codigo_generado = limpiar_codigo texto;
                    h2 = st (StCode codigo_generado) h1
                in case ejecutar E compilar codigo_generado df_filtrado h2 of
                     (Inl x, h3) \<Rightarrow> (Some x, h3)
                   | (Inr resultado_analisis, h3) \<Rightarrow>
                       (case generate_content model
                               (PromptInterprete pregunta_usuario resultado_analisis) h3 of
                          (Inl x, h4) \<Rightarrow> (Some x, h4)
                        | (Inr respuesta_final_ia, h4) \<Rightarrow>
                            (let h5 = st StTitulo h4
                             in case respuesta_final_ia of
                                  Inl x \<Rightarrow> (Some x, h5)
                                | Inr final \<Rightarrow> (None, st (StSuccess final) h5))))))"

text \<open>
  The button of the tab (lines 111 to 173). \<open>model\<close> is \<open>None\<close> when the connection of
  lines 28 to 35 failed; \<open>df_filtrado\<close> is the address of the filtered dataframe. The
  handler of line 171 catches the subclasses of \<^verbatim>\<open>Exception\<close>; any other exception leaves
  the page script (the first component).
\<close>

definition analizar ::
  "entorno \<Rightarrow> modelo option \<Rightarrow> compilador \<Rightarrow> string \<Rightarrow> nat \<Rightarrow> host \<Rightarrow> exn option \<times> host" where
  "analizar E model compilar pregunta_usuario df_filtrado h =
     (case model of
        None \<Rightarrow> (None, st (StError NoMotorIA) h)
      | Some m \<Rightarrow>
          if pregunta_usuario = [] then (None, st (StWarning EscribePregunta) h)
          else if df_empty (frames h df_filtrado) then (None, st (StWarning NoHayDatos) h)
          else
            (let columnas_df = columnas (frames h df_filtrado);
                 tipos_de_datos = dtypes (frames h df_filtrado);
                 prompt_agente = PromptAgente columnas_df tipos_de_datos pregunta_usuario
             in case analizar_try E m compilar pregunta_usuario df_filtrado prompt_agente h of
                  (None, h') \<Rightarrow> (None, h')
                | (Some x, h') \<Rightarrow>
                    if is_Exception x then (None, st (StException x) (st (StError Oops) h'))
                    else (Some x, h')))"



section \<open>Notions used to state the properties\<close>

text \<open>The fence character, and the number of fence characters a text starts with.\<close>

definition backtick :: char where
  "backtick = CHR 0x60"

definition ticks :: "string \<Rightarrow> nat" where
  "ticks s = length (takeWhile (\<lambda>c. c = backtick) s)"

text \<open>The globals dictionary a script receives: that of line 150 with the key \<^verbatim>\<open>exec\<close> adds.\<close>

definition globales_exec :: "nat \<Rightarrow> namespace" where
  "globales_exec df = (globales df)(''__builtins__'' \<mapsto> VBuiltinsDict)"

text \<open>
  Line 150 as the tab runs it, after the swap of line 149: how the execution of the code
  ends and the state it leaves. The state the script starts in is \<open>al_empezar\<close>.
\<close>

definition exec_script ::
  "entorno \<Rightarrow> compilador \<Rightarrow> string \<Rightarrow> nat \<Rightarrow> host \<Rightarrow> exn option \<times> host" where
  "exec_script E compilar codigo df h =
     py_exec E compilar codigo (globales df)
       (h\<lparr>sys_stdout := Buffer (length (buffers h)), buffers := buffers h @ [Abierto []]\<rparr>)"

definition al_empezar :: "host \<Rightarrow> host" where
  "al_empezar h =
     vista (h\<lparr>sys_stdout := Buffer (length (buffers h)), buffers := buffers h @ [Abierto []]\<rparr>)"





fun asigna_columna :: "stmt \<Rightarrow> bool" where
  "asigna_columna (SSetCol col v) = True"
| "asigna_columna s = False"



text \<open>
  The names a statement of the fragment reads, in the order in which its execution
  resolves them, and the names that neither a globals dictionary nor the builtins bind.
\<close>

fun nombres_expr :: "expr \<Rightarrow> string list" where
  "nombres_expr (ELit l) = []"
| "nombres_expr (EName n) = [n]"
| "nombres_expr (EImportCall m f) = [''__import__'']"

fun nombres :: "stmt \<Rightarrow> string list" where
  "nombres (SExpr e) = nombres_expr e"
| "nombres (SPrint e fin) = ''print'' # nombres_expr e"
| "nombres (SSetCol col v) = [''df'']"
| "nombres (SRaise n) = [n]"
| "nombres SStdoutOriginal = [''__import__'']"

definition sin_ligar :: "entorno \<Rightarrow> namespace \<Rightarrow> string \<Rightarrow> bool" where
  "sin_ligar E g n = (g n = None \<and> builtins E n = None)"



section \<open>A concrete process, for evaluating the page\<close>

text \<open>
  An interpreter environment with some of Python's builtins and modules, three
  appointments, a host at its start, a model that returns fixed texts, and the compiled
  form of a few scripts.
\<close>

definition entorno_ejemplo :: entorno where
  "entorno_ejemplo =
     \<lparr>builtins = [''print'' \<mapsto> Funcion, ''__import__'' \<mapsto> Funcion, ''len'' \<mapsto> Funcion,
                  ''open'' \<mapsto> Funcion, ''ValueError'' \<mapsto> Clase_excepcion ValueError,
                  ''SystemExit'' \<mapsto> Clase_excepcion SystemExit],
      modulos = [''pandas'' \<mapsto> Map.empty,
                 ''sys'' \<mapsto> Map.empty,
                 ''os'' \<mapsto> [''getcwd'' \<mapsto> VStr ''/app''],
                 ''time'' \<mapsto> [''time_ns'' \<mapsto> VInt 1700000000]],
      str_objeto = (\<lambda>v. ''<object>''),
      str_frame = (\<lambda>d. ''<DataFrame>'')\<rparr>"

definition entorno_mas_tarde :: entorno where
  "entorno_mas_tarde =
     entorno_ejemplo\<lparr>modulos := (modulos entorno_ejemplo)(''time'' \<mapsto> [''time_ns'' \<mapsto> VInt 1700000001])\<rparr>"

definition citas_ejemplo :: dataframe where
  "citas_ejemplo =
     \<lparr>columnas = [''Fecha'', ''Nombre_Sede'', ''Nombre_Completo_Barbero'', ''Nombre_Servicio'', ''Precio''],
      dtypes = [''datetime64[ns]'', ''object'', ''object'', ''object'', ''int64''],
      filas = [[VOtro ''Timestamp('2024-01-05 00:00:00')'', VStr ''Norte'', VStr ''Ana Ruiz'', VStr ''Corte'', VInt 20000],
               [VOtro ''Timestamp('2024-01-06 00:00:00')'', VStr ''Norte'', VStr ''Luis Gil'', VStr ''Barba'', VInt 15000],
               [VOtro ''Timestamp('2024-01-06 00:00:00')'', VStr ''Sur'', VStr ''Ana Ruiz'', VStr ''Corte'', VInt 20000]]\<rparr>"

definition citas_vacias :: dataframe where
  "citas_vacias = citas_ejemplo\<lparr>filas := []\<rparr>"

definition host_ejemplo :: host where
  "host_ejemplo =
     \<lparr>sys_stdout = Console, console = [], buffers = [],
      frames = (\<lambda>a. if a = 0 then citas_ejemplo else citas_vacias),
      ui = [], llm_log = [], exec_log = []\<rparr>"


definition modelo_fijo :: "string \<Rightarrow> string \<Rightarrow> modelo" where
  "modelo_fijo codigo respuesta =
     (\<lambda>n p. case p of PromptAgente cs ts q \<Rightarrow> Inr (Inr codigo)
               | PromptInterprete q r \<Rightarrow> Inr (Inr respuesta))"

text \<open>
  The texts of some scripts. \<open>script_print42\<close> is \<^verbatim>\<open>print(42, end="")\<close>;
  \<open>script_stdout_original\<close> puts \<^verbatim>\<open>sys.stdout\<close> back on the console.
\<close>

definition script_print42 :: string where
  "script_print42 = ''print(42, end='' @ [CHR 0x22, CHR 0x22] @ '')''"

definition script_stdout_original :: string where
  "script_stdout_original = ''__import__('sys').stdout = __import__('sys').__stdout__''"

definition respuesta_ejemplo :: string where
  "respuesta_ejemplo =
     ''  ```python'' @ [CHR 0x0A] @ script_print42 @ [CHR 0x0A] @ ''```'' @ [CHR 0x0A]"

definition programas_ejemplo :: "(string \<times> stmt list) list" where
  "programas_ejemplo =
     [(''pass'', []),
      (script_print42, [SPrint (ELit (LInt 42)) []]),
      (CHR 0x0A # script_print42 @ [CHR 0x0A], [SPrint (ELit (LInt 42)) []]),
      (''print(st)'', [SPrint (EName ''st'') [CHR 0x0A]]),
      (''model'', [SExpr (EName ''model'')]),
      (''print(__import__('os').getcwd())'', [SPrint (EImportCall ''os'' ''getcwd'') [CHR 0x0A]]),
      (''print(__import__('time').time_ns())'', [SPrint (EImportCall ''time'' ''time_ns'') [CHR 0x0A]]),
      (''df['Precio'] = 0'', [SSetCol ''Precio'' (LInt 0)]),
      (''raise ValueError'', [SRaise ''ValueError'']),
      (''raise SystemExit'', [SRaise ''SystemExit'']),
      (script_stdout_original, [SStdoutOriginal]),
      (script_stdout_original @ ''; print(42)'', [SStdoutOriginal, SPrint (ELit (LInt 42)) [CHR 0x0A]]),
      (script_stdout_original @ ''; raise ValueError'', [SStdoutOriginal, SRaise ''ValueError''])]"

text \<open>
  A compiler that knows these texts; it is used on no other text.
\<close>

definition compilar_ejemplo :: compilador where
  "compilar_ejemplo codigo =
     (case map_of programas_ejemplo codigo of
        Some ss \<Rightarrow> Inr (interpretar ss)
      | None \<Rightarrow> Inl SyntaxError)"

section \<open>Lemmas on the removal of the fences\<close>

lemma fence_ticks: "fence = [backtick, backtick, backtick]"
  by (simp add: fence_def backtick_def)

lemma fence_python_ticks: "fence_python = fence @ ''python''"
  by (simp add: fence_def fence_python_def)

lemma ticks_Nil [simp]: "ticks [] = 0"
  by (simp add: ticks_def)

lemma ticks_Cons [simp]: "ticks (c # cs) = (if c = backtick then Suc (ticks cs) else 0)"
  by (simp add: ticks_def)

lemma take_fence_iff: "take (length fence) s = fence \<longleftrightarrow> 3 \<le> ticks s"
proof (cases s)
  case Nil
  then show ?thesis by (simp add: fence_ticks)
next
  case s1: (Cons a s1)
  show ?thesis
  proof (cases s1)
    case Nil
    with s1 show ?thesis by (auto simp add: fence_ticks)
  next
    case s2: (Cons b s2)
    show ?thesis
    proof (cases s2)
      case Nil
      with s1 s2 show ?thesis by (auto simp add: fence_ticks)
    next
      case (Cons c s3)
      with s1 s2 show ?thesis by (auto simp add: fence_ticks)
    qed
  qed
qed

lemma ticks_drop: "3 \<le> ticks s \<Longrightarrow> ticks (drop 3 s) = ticks s - 3"
  by (cases s; cases "tl s"; cases "tl (tl s)") (auto split: if_splits)

lemma reemplazar_fence_match:
  "take (length fence) s = fence \<Longrightarrow>
   reemplazar_desde fence [] s = reemplazar_desde fence [] (drop (length fence) s)"
  by (subst reemplazar_desde.simps) (auto simp: fence_ticks)

lemma reemplazar_no_match:
  "take (length old) (c # cs) \<noteq> old \<Longrightarrow>
   reemplazar_desde old new (c # cs) = c # reemplazar_desde old new cs"
  by (subst reemplazar_desde.simps) auto

lemma ticks_reemplazar: "ticks (reemplazar_desde fence [] s) = ticks s mod 3"
proof (induction s rule: length_induct)
  case (1 s)
  show ?case
  proof (cases s)
    case Nil
    then show ?thesis by (simp add: reemplazar_desde.simps)
  next
    case (Cons c cs)
    have l3: "length fence = 3" by (simp add: fence_ticks)
    show ?thesis
    proof (cases "take (length fence) s = fence")
      case True
      then have t3: "3 \<le> ticks s" by (simp add: take_fence_iff)
      have "length (drop (length fence) s) < length s" using Cons by (simp add: l3)
      then have "ticks (reemplazar_desde fence [] (drop (length fence) s)) = ticks (drop (length fence) s) mod 3"
        using 1 by blast
      then show ?thesis
        using t3 ticks_drop[OF t3] reemplazar_fence_match[OF True] by (simp add: l3 le_mod_geq)
    next
      case False
      then have t3: "ticks (c # cs) < 3" using Cons by (simp add: take_fence_iff)
      have ih: "ticks (reemplazar_desde fence [] cs) = ticks cs mod 3"
        using 1 Cons by simp
      have eq: "reemplazar_desde fence [] (c # cs) = c # reemplazar_desde fence [] cs"
        using False Cons by (simp add: reemplazar_no_match)
      show ?thesis using t3 ih unfolding Cons eq by (auto split: if_splits)
    qed
  qed
qed

lemma sin_fence_reemplazar: "\<not> py_in fence (reemplazar_desde fence [] s)"
proof (induction s rule: length_induct)
  case (1 s)
  show ?case
  proof (cases s)
    case Nil
    then show ?thesis by (simp add: reemplazar_desde.simps fence_ticks)
  next
    case (Cons c cs)
    have l3: "length fence = 3" by (simp add: fence_ticks)
    show ?thesis
    proof (cases "take (length fence) s = fence")
      case True
      have "length (drop (length fence) s) < length s" using Cons by (simp add: l3)
      then show ?thesis using 1 reemplazar_fence_match[OF True] by simp
    next
      case False
      have eq: "reemplazar_desde fence [] (c # cs) = c # reemplazar_desde fence [] cs"
        using False Cons by (simp add: reemplazar_no_match)
      have ih: "\<not> py_in fence (reemplazar_desde fence [] cs)"
        using 1 Cons by simp
      have "ticks (reemplazar_desde fence [] (c # cs)) < 3"
        by (simp only: ticks_reemplazar mod_less_divisor)
      then have "\<not> 3 \<le> ticks (c # reemplazar_desde fence [] cs)"
        unfolding eq by linarith
      then have "take (length fence) (c # reemplazar_desde fence [] cs) \<noteq> fence"
        using take_fence_iff[of "c # reemplazar_desde fence [] cs"] by blast
      then show ?thesis using ih unfolding Cons eq by simp
    qed
  qed
qed

lemma take_fence_python:
  assumes "take (length fence_python) xs = fence_python"
  shows "take (length fence) xs = fence"
proof -
  have "take (length fence) xs = take (length fence) (take (length fence_python) xs)"
    by (simp add: fence_def fence_python_def)
  also have "\<dots> = take (length fence) fence_python"
    by (simp only: assms)
  also have "\<dots> = fence"
    by (simp add: fence_def fence_python_def)
  finally show ?thesis .
qed

lemma py_in_fence_python: "py_in fence_python s \<Longrightarrow> py_in fence s"
proof (induction s)
  case Nil
  then show ?case by (simp add: fence_python_def)
next
  case (Cons c cs)
  then show ?case using take_fence_python[of "c # cs"] by auto
qed

lemma reemplazar_sin_ocurrencia:
  "\<not> py_in old s \<Longrightarrow> reemplazar_desde old new s = s"
proof (induction s)
  case Nil
  then show ?case by (simp add: reemplazar_desde.simps)
next
  case (Cons c cs)
  then show ?case by (simp add: reemplazar_no_match)
qed

lemma reemplazar_salta:
  "backtick \<notin> set a \<Longrightarrow> old \<noteq> [] \<Longrightarrow> hd old = backtick \<Longrightarrow>
   reemplazar_desde old new (a @ t) = a @ reemplazar_desde old new t"
proof (induction a)
  case Nil
  then show ?case by simp
next
  case (Cons c a)
  have "take (length old) (c # a @ t) \<noteq> old"
  proof
    assume "take (length old) (c # a @ t) = old"
    then have "hd old = c" using Cons.prems(2) by (cases old) auto
    then show False using Cons.prems by simp
  qed
  then show ?case using Cons by (simp add: reemplazar_no_match)
qed

lemma limpiar_envuelto_python:
  assumes "backtick \<notin> set cuerpo" and "py_strip texto = fence_python @ cuerpo @ fence"
  shows "limpiar_codigo texto = cuerpo"
proof -
  have fp: "fence_python \<noteq> []" "hd fence_python = backtick"
    by (simp_all add: fence_python_def backtick_def)
  have f: "fence \<noteq> []" "hd fence = backtick"
    by (simp_all add: fence_def backtick_def)
  have 1: "reemplazar_desde fence_python [] (fence_python @ cuerpo @ fence)
           = reemplazar_desde fence_python [] (cuerpo @ fence)"
    by (subst reemplazar_desde.simps) (simp add: fp)
  have 2: "reemplazar_desde fence_python [] (cuerpo @ fence) = cuerpo @ reemplazar_desde fence_python [] fence"
    using reemplazar_salta[OF assms(1) fp] by simp
  have 3: "reemplazar_desde fence_python [] fence = fence"
    by (rule reemplazar_sin_ocurrencia) (simp add: fence_def fence_python_def)
  have 4: "reemplazar_desde fence [] (cuerpo @ fence) = cuerpo @ reemplazar_desde fence [] fence"
    using reemplazar_salta[OF assms(1) f] by simp
  have 5: "reemplazar_desde fence [] fence = []"
    by (simp add: reemplazar_desde.simps fence_def)
  show ?thesis
    using fp f by (simp add: limpiar_codigo_def py_replace_def assms(2) 1 2 3 4 5)
qed

lemma limpiar_envuelto:
  assumes "backtick \<notin> set cuerpo" and "py_strip texto = fence @ cuerpo @ fence"
    and "\<not> py_in fence_python (py_strip texto)"
  shows "limpiar_codigo texto = cuerpo"
proof -
  have f: "fence \<noteq> []" "hd fence = backtick"
    by (simp_all add: fence_def backtick_def)
  have fp: "fence_python \<noteq> []"
    by (simp add: fence_python_def)
  have 1: "reemplazar_desde fence_python [] (py_strip texto) = py_strip texto"
    using assms(3) by (rule reemplazar_sin_ocurrencia)
  have 2: "reemplazar_desde fence [] (fence @ cuerpo @ fence) = reemplazar_desde fence [] (cuerpo @ fence)"
    by (subst reemplazar_desde.simps) (simp add: f)
  have 4: "reemplazar_desde fence [] (cuerpo @ fence) = cuerpo @ reemplazar_desde fence [] fence"
    using reemplazar_salta[OF assms(1) f] by simp
  have 5: "reemplazar_desde fence [] fence = []"
    by (simp add: reemplazar_desde.simps fence_def)
  show ?thesis
    using fp f 1 by (simp add: limpiar_codigo_def py_replace_def assms(2) 2 4 5)
qed

lemma limpiar_sin_fence:
  assumes "\<not> py_in fence (py_strip texto)"
  shows "limpiar_codigo texto = py_strip texto"
proof -
  have "\<not> py_in fence_python (py_strip texto)"
    using assms py_in_fence_python by blast
  then show ?thesis
    using assms
    by (simp add: limpiar_codigo_def py_replace_def fence_def fence_python_def reemplazar_sin_ocurrencia)
qed

lemma limpiar_no_contiene: "\<not> py_in fence (limpiar_codigo texto)"
proof -
  have "fence \<noteq> []" by (simp add: fence_def)
  then show ?thesis
    by (simp add: limpiar_codigo_def py_replace_def sin_fence_reemplazar)
qed

section \<open>Lemmas on the execution block\<close>

lemma vista_campos [simp]:
  "sys_stdout (vista h) = sys_stdout h" "console (vista h) = console h"
  "buffers (vista h) = buffers h" "frames (vista h) = frames h"
  by (simp_all add: vista_def)

lemma exec_script_alt:
  "exec_script E compilar codigo a h =
     (case compilar codigo of
        Inl x \<Rightarrow>
          (Some x, h\<lparr>sys_stdout := Buffer (length (buffers h)), buffers := buffers h @ [Abierto []],
                     exec_log := exec_log h @ [codigo]\<rparr>)
      | Inr s \<Rightarrow>
          (case s E (globales_exec a) (al_empezar h) of
             (r, hs) \<Rightarrow>
               (r, h\<lparr>sys_stdout := sys_stdout hs, console := console hs, buffers := buffers hs,
                     frames := frames hs, exec_log := exec_log h @ [codigo]\<rparr>)))"
  by (simp add: exec_script_def py_exec_def globales_def globales_exec_def al_empezar_def
        vista_def efectos_def Let_def split: sum.splits prod.splits)

lemma al_empezar_indep [simp]:
  "al_empezar (h\<lparr>llm_log := l\<rparr>) = al_empezar h"
  "al_empezar (h\<lparr>ui := u\<rparr>) = al_empezar h"
  by (simp_all add: al_empezar_def vista_def)

lemma exec_script_indep:
  "exec_script E compilar codigo a (h\<lparr>llm_log := l, ui := u\<rparr>)
   = (fst (exec_script E compilar codigo a h),
      (snd (exec_script E compilar codigo a h))\<lparr>llm_log := l, ui := u\<rparr>)"
  by (simp add: exec_script_alt split: sum.splits prod.splits)

lemma exec_script_campos:
  "ui (snd (exec_script E compilar codigo a h)) = ui h"
  "llm_log (snd (exec_script E compilar codigo a h)) = llm_log h"
  "exec_log (snd (exec_script E compilar codigo a h)) = exec_log h @ [codigo]"
  by (simp_all add: exec_script_alt split: sum.splits prod.splits)

lemma ejecutar_exec:
  "ejecutar E compilar codigo a h =
     (case exec_script E compilar codigo a h of
        (Some x, h2) \<Rightarrow> (Inl x, h2)
      | (None, h2) \<Rightarrow>
          (case stdout_getvalue h2 of
             Inl x \<Rightarrow> (Inl x, h2)
           | Inr res \<Rightarrow> (Inr res, h2\<lparr>sys_stdout := sys_stdout h\<rparr>)))"
  by (simp add: ejecutar_def exec_script_def Let_def)

lemma stdout_getvalue_indep [simp]:
  "stdout_getvalue (h\<lparr>llm_log := l\<rparr>) = stdout_getvalue h"
  "stdout_getvalue (h\<lparr>ui := u\<rparr>) = stdout_getvalue h"
  by (simp_all add: stdout_getvalue_def split: stream.splits)

lemma ejecutar_indep:
  "ejecutar E compilar codigo a (h\<lparr>llm_log := l, ui := u\<rparr>)
   = (fst (ejecutar E compilar codigo a h),
      (snd (ejecutar E compilar codigo a h))\<lparr>llm_log := l, ui := u\<rparr>)"
  by (simp add: ejecutar_exec exec_script_indep split: prod.splits option.splits sum.splits)

lemma ejecutar_campos:
  "ui (snd (ejecutar E compilar codigo a h)) = ui h"
  "llm_log (snd (ejecutar E compilar codigo a h)) = llm_log h"
  "exec_log (snd (ejecutar E compilar codigo a h)) = exec_log h @ [codigo]"
  using exec_script_campos[of E compilar codigo a h]
  by (auto simp add: ejecutar_exec split: prod.splits option.splits sum.splits)

lemma ejecutar_flujos:
  "console (snd (ejecutar E compilar codigo a h)) = console (snd (exec_script E compilar codigo a h))"
  "buffers (snd (ejecutar E compilar codigo a h)) = buffers (snd (exec_script E compilar codigo a h))"
  "frames (snd (ejecutar E compilar codigo a h)) = frames (snd (exec_script E compilar codigo a h))"
  by (simp_all add: ejecutar_exec split: prod.splits option.splits sum.splits)

lemma ejecutar_script_falla:
  "fst (exec_script E compilar codigo a h) = Some x \<Longrightarrow>
   ejecutar E compilar codigo a h = (Inl x, snd (exec_script E compilar codigo a h))"
  by (cases "exec_script E compilar codigo a h") (simp add: ejecutar_exec)




section \<open>Lemmas on the analyst tab\<close>

lemma analizar_bloque_falla:
  assumes "model = Some m" and "pregunta \<noteq> []" and "\<not> df_empty (frames h a)"
    and "m (length (llm_log h)) (PromptAgente (columnas (frames h a)) (dtypes (frames h a)) pregunta) = Inr (Inr texto)"
    and "fst (ejecutar E compilar (limpiar_codigo texto) a h) = Inl x"
  shows "analizar E model compilar pregunta a h =
     (if is_Exception x then None else Some x,
      (snd (ejecutar E compilar (limpiar_codigo texto) a h))
        \<lparr>ui := ui h @ [StCode (limpiar_codigo texto)] @ (if is_Exception x then [StError Oops, StException x] else []),
         llm_log := llm_log h @ [PromptAgente (columnas (frames h a)) (dtypes (frames h a)) pregunta]\<rparr>)"
  using assms
  by (simp add: analizar_def analizar_try_def generate_content_def st_def Let_def ejecutar_indep
        split: prod.splits)

lemma analizar_bloque_termina:
  assumes "model = Some m" and "pregunta \<noteq> []" and "\<not> df_empty (frames h a)"
    and "m (length (llm_log h)) (PromptAgente (columnas (frames h a)) (dtypes (frames h a)) pregunta) = Inr (Inr texto)"
    and "fst (ejecutar E compilar (limpiar_codigo texto) a h) = Inr res"
  shows "analizar E model compilar pregunta a h =
     (case m (Suc (length (llm_log h))) (PromptInterprete pregunta res) of
        Inl x \<Rightarrow>
          (if is_Exception x then None else Some x,
           (snd (ejecutar E compilar (limpiar_codigo texto) a h))
             \<lparr>ui := ui h @ [StCode (limpiar_codigo texto)] @ (if is_Exception x then [StError Oops, StException x] else []),
              llm_log := llm_log h @ [PromptAgente (columnas (frames h a)) (dtypes (frames h a)) pregunta,
                                       PromptInterprete pregunta res]\<rparr>)
      | Inr (Inl x) \<Rightarrow>
          (if is_Exception x then None else Some x,
           (snd (ejecutar E compilar (limpiar_codigo texto) a h))
             \<lparr>ui := ui h @ [StCode (limpiar_codigo texto), StTitulo]
                    @ (if is_Exception x then [StError Oops, StException x] else []),
              llm_log := llm_log h @ [PromptAgente (columnas (frames h a)) (dtypes (frames h a)) pregunta,
                                       PromptInterprete pregunta res]\<rparr>)
      | Inr (Inr final) \<Rightarrow>
          (None,
           (snd (ejecutar E compilar (limpiar_codigo texto) a h))
             \<lparr>ui := ui h @ [StCode (limpiar_codigo texto), StTitulo, StSuccess final],
              llm_log := llm_log h @ [PromptAgente (columnas (frames h a)) (dtypes (frames h a)) pregunta,
                                       PromptInterprete pregunta res]\<rparr>))"
  using assms
  by (simp add: analizar_def analizar_try_def generate_content_def st_def Let_def ejecutar_indep
        split: prod.splits sum.splits)

lemma analizar_modelo_falla:
  assumes "model = Some m" and "pregunta \<noteq> []" and "\<not> df_empty (frames h a)"
    and "m (length (llm_log h)) (PromptAgente (columnas (frames h a)) (dtypes (frames h a)) pregunta) = Inl x
       \<or> m (length (llm_log h)) (PromptAgente (columnas (frames h a)) (dtypes (frames h a)) pregunta) = Inr (Inl x)"
  shows "analizar E model compilar pregunta a h =
     (if is_Exception x then None else Some x,
      h\<lparr>ui := ui h @ (if is_Exception x then [StError Oops, StException x] else []),
        llm_log := llm_log h @ [PromptAgente (columnas (frames h a)) (dtypes (frames h a)) pregunta]\<rparr>)"
  using assms
  by (auto simp add: analizar_def analizar_try_def generate_content_def st_def Let_def)

lemma analizar_rechaza:
  assumes "model = None \<or> pregunta = [] \<or> df_empty (frames h a)"
  shows "analizar E model compilar pregunta a h =
     (None, h\<lparr>ui := ui h @ [case model of None \<Rightarrow> StError NoMotorIA
                              | Some m \<Rightarrow> if pregunta = [] then StWarning EscribePregunta
                                          else StWarning NoHayDatos]\<rparr>)"
  using assms
  by (auto simp add: analizar_def st_def split: option.splits)

lemma analizar_exec_log:
  assumes "model = Some m" and "pregunta \<noteq> []" and "\<not> df_empty (frames h a)"
    and "m (length (llm_log h)) (PromptAgente (columnas (frames h a)) (dtypes (frames h a)) pregunta) = Inr (Inr texto)"
  shows "exec_log (snd (analizar E model compilar pregunta a h)) = exec_log h @ [limpiar_codigo texto]"
proof (cases "fst (ejecutar E compilar (limpiar_codigo texto) a h)")
  case (Inl x)
  show ?thesis
    by (simp add: analizar_bloque_falla[OF assms Inl] ejecutar_campos)
next
  case (Inr res)
  show ?thesis
    by (simp add: analizar_bloque_termina[OF assms Inr] ejecutar_campos split: sum.splits)
qed

section \<open>Lemmas on the scripts of the fragment\<close>

lemma exec_script_interpretar:
  assumes "compilar codigo = Inr (interpretar ss)"
  shows "exec_script E compilar codigo a h =
     (fst (interpretar ss E (globales_exec a) (al_empezar h)),
      h\<lparr>sys_stdout := sys_stdout (snd (interpretar ss E (globales_exec a) (al_empezar h))),
        console := console (snd (interpretar ss E (globales_exec a) (al_empezar h))),
        buffers := buffers (snd (interpretar ss E (globales_exec a) (al_empezar h))),
        frames := frames (snd (interpretar ss E (globales_exec a) (al_empezar h))),
        exec_log := exec_log h @ [codigo]\<rparr>)"
  using assms by (simp add: exec_script_alt split: prod.splits)

lemma al_empezar_campos:
  "sys_stdout (al_empezar h) = Buffer (length (buffers h))"
  "console (al_empezar h) = console h"
  "buffers (al_empezar h) = buffers h @ [Abierto []]"
  "frames (al_empezar h) = frames h"
  by (simp_all add: al_empezar_def)

lemma dom_globales: "dom (globales a) = {''pd'', ''df''}"
  by (auto simp: globales_def split: if_splits)

lemma dom_globales_exec: "dom (globales_exec a) = {''pd'', ''df'', ''__builtins__''}"
  by (auto simp: globales_exec_def globales_def split: if_splits)

lemma lookup_name_error_iff:
  "lookup_name E g n = Inl x \<longleftrightarrow> x = NameError n \<and> n \<notin> dom g \<and> n \<notin> dom (builtins E)"
  by (auto simp: lookup_name_def domIff split: option.splits)

lemma lookup_name_builtin:
  "g n = None \<Longrightarrow> n \<in> dom (builtins E) \<Longrightarrow> lookup_name E g n = Inr (VBuiltin n)"
  by (auto simp: lookup_name_def split: option.splits)


lemma globales_exec_df: "globales_exec a ''df'' = Some (VFrame a)"
  by (simp add: globales_exec_def globales_def)




text \<open>statements that leave sys.stdout and the dataframes alone\<close>

lemma stdout_write_sys_stdout:
  "stdout_write t h = Inr h' \<Longrightarrow> sys_stdout h' = sys_stdout h \<and> frames h' = frames h"
  by (auto simp: stdout_write_def split: stream.splits sio.splits if_splits option.splits)



lemma paso_sin_asignar:
  "\<not> asigna_columna s \<Longrightarrow> frames (snd (paso E g s h)) = frames h"
  by (cases s)
     (auto dest: stdout_write_sys_stdout
           split: sum.splits option.splits pyval.splits builtin.splits if_splits)

lemma interpretar_sin_asignar:
  "\<forall>s\<in>set ss. \<not> asigna_columna s \<Longrightarrow> frames (snd (interpretar ss E g h)) = frames h"
proof (induction ss arbitrary: h)
  case Nil
  then show ?case by simp
next
  case (Cons s ss)
  obtain r h' where p: "paso E g s h = (r, h')" by (cases "paso E g s h") auto
  have s: "frames h' = frames h"
    using paso_sin_asignar[of s E g h] Cons.prems p by simp
  show ?case
  proof (cases r)
    case None
    then show ?thesis using p s Cons.IH[of h'] Cons.prems by simp
  next
    case (Some x)
    then show ?thesis using p s by simp
  qed
qed

text \<open>a first statement that reads an unbound name\<close>

lemma interpretar_nombre_suelto:
  assumes "n \<notin> dom g" and "n \<notin> dom (builtins E)"
  shows "interpretar (SExpr (EName n) # ss) E g h = (Some (NameError n), h)"
  using assms by (simp add: lookup_name_def domIff)

lemma interpretar_print_nombre:
  assumes "n \<notin> dom g" and "n \<notin> dom (builtins E)" and "g ''print'' = None"
    and "''print'' \<in> dom (builtins E)"
  shows "interpretar (SPrint (EName n) fin # ss) E g h = (Some (NameError n), h)"
  using assms(1,2) lookup_name_builtin[of g "''print''" E, OF assms(3,4)]
  by (simp add: lookup_name_def[of E g n] domIff)














section \<open>Lemmas on the concrete process\<close>

lemma host_ejemplo_campos:
  "console host_ejemplo = []" "buffers host_ejemplo = []" "llm_log host_ejemplo = []"
  "exec_log host_ejemplo = []" "ui host_ejemplo = []" "sys_stdout host_ejemplo = Console"
  "columnas (frames host_ejemplo 0)
     = [''Fecha'', ''Nombre_Sede'', ''Nombre_Completo_Barbero'', ''Nombre_Servicio'', ''Precio'']"
  "dtypes (frames host_ejemplo 0) = [''datetime64[ns]'', ''object'', ''object'', ''object'', ''int64'']"
  "\<not> df_empty (frames host_ejemplo 0)" "df_empty (frames host_ejemplo 1)"
  by (simp_all add: host_ejemplo_def citas_ejemplo_def citas_vacias_def df_empty_def)

lemma modelo_fijo_agente: "modelo_fijo c r n (PromptAgente cs ts q) = Inr (Inr c)"
  by (simp add: modelo_fijo_def)


lemma entorno_ejemplo_builtins:
  "''print'' \<in> dom (builtins entorno_ejemplo)" "''__import__'' \<in> dom (builtins entorno_ejemplo)"
  "''st'' \<notin> dom (builtins entorno_ejemplo)" "''model'' \<notin> dom (builtins entorno_ejemplo)"
  by (simp_all add: entorno_ejemplo_def)

lemma limpiar_literal:
  "\<not> py_in fence (py_strip s) \<Longrightarrow> py_strip s = s \<Longrightarrow> limpiar_codigo s = s"
  using limpiar_sin_fence by metis

lemma strip_ej:
  "py_strip respuesta_ejemplo = fence_python @ (CHR 0x0A # script_print42 @ [CHR 0x0A]) @ fence"
  by (simp add: py_strip_def respuesta_ejemplo_def script_print42_def py_isspace_def fence_def
        fence_python_def)


lemma limpiar_print42: "limpiar_codigo script_print42 = script_print42"
proof -
  have s: "py_strip script_print42 = script_print42"
    by (simp add: py_strip_def py_isspace_def script_print42_def)
  have "\<not> py_in fence script_print42"
    by (simp add: fence_def script_print42_def)
  then have "\<not> py_in fence (py_strip script_print42)"
    by (simp only: s not_False_eq_True)
  then show ?thesis using s by (rule limpiar_literal)
qed


lemma limpiar_raise_valueerror: "limpiar_codigo ''raise ValueError'' = ''raise ValueError''"
proof -
  have s: "py_strip ''raise ValueError'' = ''raise ValueError''"
    by (simp add: py_strip_def py_isspace_def)
  have "\<not> py_in fence (py_strip ''raise ValueError'')"
    unfolding s by (simp add: fence_def)
  then show ?thesis using s by (rule limpiar_literal)
qed

lemma limpiar_model: "limpiar_codigo ''model'' = ''model''"
proof -
  have s: "py_strip ''model'' = ''model''"
    by (simp add: py_strip_def py_isspace_def)
  have "\<not> py_in fence (py_strip ''model'')"
    unfolding s by (simp add: fence_def)
  then show ?thesis using s by (rule limpiar_literal)
qed


lemma limpiar_stdout_original:
  "limpiar_codigo script_stdout_original = script_stdout_original"
proof -
  have s: "py_strip script_stdout_original = script_stdout_original"
    by (simp add: py_strip_def py_isspace_def script_stdout_original_def)
  have "\<not> py_in fence script_stdout_original"
    by (simp add: fence_def script_stdout_original_def)
  then have "\<not> py_in fence (py_strip script_stdout_original)"
    by (simp only: s not_False_eq_True)
  then show ?thesis using s by (rule limpiar_literal)
qed


lemma compilar_print42:
  "compilar_ejemplo script_print42 = Inr (interpretar [SPrint (ELit (LInt 42)) []])"
  by (simp add: compilar_ejemplo_def programas_ejemplo_def script_print42_def)

lemma compilar_print42_lineas:
  "compilar_ejemplo (CHR 0x0A # script_print42 @ [CHR 0x0A])
   = Inr (interpretar [SPrint (ELit (LInt 42)) []])"
  by (simp add: compilar_ejemplo_def programas_ejemplo_def script_print42_def)

lemma compilar_print_st:
  "compilar_ejemplo ''print(st)'' = Inr (interpretar [SPrint (EName ''st'') [CHR 0x0A]])"
  by (simp add: compilar_ejemplo_def programas_ejemplo_def script_print42_def)

lemma compilar_model:
  "compilar_ejemplo ''model'' = Inr (interpretar [SExpr (EName ''model'')])"
  by (simp add: compilar_ejemplo_def programas_ejemplo_def script_print42_def)

lemma compilar_os:
  "compilar_ejemplo ''print(__import__('os').getcwd())''
   = Inr (interpretar [SPrint (EImportCall ''os'' ''getcwd'') [CHR 0x0A]])"
  by (simp add: compilar_ejemplo_def programas_ejemplo_def script_print42_def)


lemma compilar_setcol:
  "compilar_ejemplo ''df['Precio'] = 0'' = Inr (interpretar [SSetCol ''Precio'' (LInt 0)])"
  by (simp add: compilar_ejemplo_def programas_ejemplo_def script_print42_def)

lemma compilar_raise_valueerror:
  "compilar_ejemplo ''raise ValueError'' = Inr (interpretar [SRaise ''ValueError''])"
  by (simp add: compilar_ejemplo_def programas_ejemplo_def script_print42_def)


lemma compilar_stdout_original:
  "compilar_ejemplo script_stdout_original = Inr (interpretar [SStdoutOriginal])"
  by (simp add: compilar_ejemplo_def programas_ejemplo_def script_print42_def
        script_stdout_original_def)



text \<open>what the example scripts do\<close>

lemma lookup_ejemplo:
  "lookup_name entorno_ejemplo (globales_exec a) ''print'' = Inr (VBuiltin ''print'')"
  "lookup_name entorno_ejemplo (globales_exec a) ''__import__'' = Inr (VBuiltin ''__import__'')"
  "lookup_name entorno_ejemplo (globales_exec a) ''ValueError'' = Inr (VBuiltin ''ValueError'')"
  "lookup_name entorno_ejemplo (globales_exec a) ''SystemExit'' = Inr (VBuiltin ''SystemExit'')"
  "lookup_name entorno_mas_tarde (globales_exec a) ''print'' = Inr (VBuiltin ''print'')"
  "lookup_name entorno_mas_tarde (globales_exec a) ''__import__'' = Inr (VBuiltin ''__import__'')"
  by (simp_all add: lookup_name_def globales_exec_def globales_def entorno_ejemplo_def
        entorno_mas_tarde_def)

lemma tablas_ejemplo:
  "builtins entorno_ejemplo ''ValueError'' = Some (Clase_excepcion ValueError)"
  "builtins entorno_ejemplo ''SystemExit'' = Some (Clase_excepcion SystemExit)"
  "modulos entorno_ejemplo ''time'' = Some [''time_ns'' \<mapsto> VInt 1700000000]"
  "modulos entorno_mas_tarde ''time'' = Some [''time_ns'' \<mapsto> VInt 1700000001]"
  "modulos entorno_ejemplo ''os'' = Some [''getcwd'' \<mapsto> VStr ''/app'']"
  by (simp_all add: entorno_ejemplo_def entorno_mas_tarde_def)

lemma str_int_42: "str_int 42 = ''42''"
  by (simp add: str_int_def digitos.simps)




lemma es_raise_valueerror:
  "exec_script entorno_ejemplo compilar_ejemplo ''raise ValueError'' 0 host_ejemplo
   = (Some ValueError,
      host_ejemplo\<lparr>sys_stdout := Buffer 0, buffers := [Abierto []], exec_log := [''raise ValueError'']\<rparr>)"
  by (simp add: exec_script_interpretar[of compilar_ejemplo "''raise ValueError''" "[SRaise ''ValueError'']",
          OF compilar_raise_valueerror]
        al_empezar_campos host_ejemplo_def lookup_ejemplo tablas_ejemplo)




lemma es_stdout_original:
  "exec_script entorno_ejemplo compilar_ejemplo script_stdout_original 0 host_ejemplo
   = (None, host_ejemplo\<lparr>buffers := [Abierto []], exec_log := [script_stdout_original]\<rparr>)"
  by (simp add: exec_script_interpretar[of compilar_ejemplo script_stdout_original
            "[SStdoutOriginal]", OF compilar_stdout_original]
        al_empezar_campos host_ejemplo_def lookup_ejemplo)

lemma es_setcol:
  "exec_script entorno_ejemplo compilar_ejemplo ''df['Precio'] = 0'' 0 host_ejemplo
   = (None,
      host_ejemplo\<lparr>sys_stdout := Buffer 0, buffers := [Abierto []],
                   frames := (frames host_ejemplo)(0 := frame_setitem ''Precio'' (LInt 0) citas_ejemplo),
                   exec_log := [''df['Precio'] = 0'']\<rparr>)"
  by (simp add: exec_script_interpretar[of compilar_ejemplo "''df['Precio'] = 0''"
            "[SSetCol ''Precio'' (LInt 0)]", OF compilar_setcol]
        al_empezar_campos host_ejemplo_def lookup_name_def globales_exec_df)



lemma es_os:
  "exec_script entorno_ejemplo compilar_ejemplo ''print(__import__('os').getcwd())'' 0 host_ejemplo
   = (None,
      host_ejemplo\<lparr>sys_stdout := Buffer 0, buffers := [Abierto (''/app'' @ [CHR 0x0A])],
                   exec_log := [''print(__import__('os').getcwd())'']\<rparr>)"
  by (simp add: exec_script_interpretar[of compilar_ejemplo "''print(__import__('os').getcwd())''"
            "[SPrint (EImportCall ''os'' ''getcwd'') [CHR 0x0A]]", OF compilar_os]
        al_empezar_campos host_ejemplo_def lookup_ejemplo stdout_write_def py_str_def tablas_ejemplo)

lemma setitem_citas:
  "map (\<lambda>r. r ! 4) (filas (frame_setitem ''Precio'' (LInt 0) citas_ejemplo)) = [VInt 0, VInt 0, VInt 0]"
  by (simp add: frame_setitem_def citas_ejemplo_def)

text \<open>the capture of the output\<close>

lemma ejecutar_stdout_original:
  "fst (exec_script entorno_ejemplo compilar_ejemplo script_stdout_original 0 host_ejemplo) = None
   \<and> buffers (snd (exec_script entorno_ejemplo compilar_ejemplo script_stdout_original 0 host_ejemplo))
       = [Abierto []]
   \<and> console (snd (exec_script entorno_ejemplo compilar_ejemplo script_stdout_original 0 host_ejemplo)) = []
   \<and> fst (ejecutar entorno_ejemplo compilar_ejemplo script_stdout_original 0 host_ejemplo)
       = Inl AttributeError"
  by (simp add: ejecutar_exec es_stdout_original stdout_getvalue_def host_ejemplo_campos)



text \<open>names that nothing binds\<close>

lemma sin_ligar_globales_exec:
  "sin_ligar E (globales_exec a) n
   \<longleftrightarrow> n \<notin> {''pd'', ''df'', ''__builtins__''} \<and> n \<notin> dom (builtins E)"
  by (auto simp: sin_ligar_def globales_exec_def globales_def domIff split: if_splits)

lemma lookup_name_sin_ligar:
  "lookup_name E g n = Inl x \<longleftrightarrow> x = NameError n \<and> sin_ligar E g n"
  by (auto simp: lookup_name_def sin_ligar_def split: option.splits)

lemma paso_nombre_sin_ligar:
  assumes "find (sin_ligar E g) (nombres s) = Some n"
  shows "paso E g s h = (Some (NameError n), h)"
proof (cases s)
  case (SExpr e)
  then show ?thesis
    using assms by (cases e) (auto simp: lookup_name_def sin_ligar_def split: option.splits if_splits)
next
  case (SPrint e fin)
  show ?thesis
  proof (cases "sin_ligar E g ''print''")
    case True
    then show ?thesis
      using assms SPrint by (auto simp: lookup_name_def sin_ligar_def split: option.splits)
  next
    case False
    then obtain p where p: "lookup_name E g ''print'' = Inr p"
      by (cases "lookup_name E g ''print''") (auto simp: lookup_name_sin_ligar)
    have f: "find (sin_ligar E g) (nombres_expr e) = Some n"
      using assms SPrint False by simp
    have "eval_expr E g e = Inl (NameError n)"
      using f by (cases e) (auto simp: lookup_name_def sin_ligar_def split: option.splits if_splits)
    then show ?thesis using SPrint p by simp
  qed
next
  case (SSetCol col v)
  then show ?thesis
    using assms by (auto simp: lookup_name_def sin_ligar_def split: option.splits if_splits)
next
  case (SRaise m)
  then show ?thesis
    using assms by (auto simp: lookup_name_def sin_ligar_def split: option.splits if_splits)
next
  case SStdoutOriginal
  then show ?thesis
    using assms by (auto simp: lookup_name_def sin_ligar_def split: option.splits if_splits)
qed

lemma interpretar_append:
  "interpretar (previos @ resto) E g h =
     (case interpretar previos E g h of
        (Some x, h') \<Rightarrow> (Some x, h')
      | (None, h') \<Rightarrow> interpretar resto E g h')"
  by (induction previos arbitrary: h) (auto split: prod.splits option.splits)

lemma interpretar_nombre_sin_ligar:
  assumes "fst (interpretar previos E g h) = None"
    and "find (sin_ligar E g) (nombres s) = Some n"
  shows "fst (interpretar (previos @ s # resto) E g h) = Some (NameError n)"
  using assms(1) paso_nombre_sin_ligar[OF assms(2)]
  by (cases "interpretar previos E g h") (simp add: interpretar_append)

lemma exec_script_nombre_sin_ligar:
  assumes "compilar codigo = Inr (interpretar (previos @ s # resto))"
    and "fst (interpretar previos E (globales_exec a) (al_empezar h)) = None"
    and "find (sin_ligar E (globales_exec a)) (nombres s) = Some n"
  shows "fst (exec_script E compilar codigo a h) = Some (NameError n)"
  by (simp add: exec_script_interpretar[of compilar codigo "previos @ s # resto", OF assms(1)]
        interpretar_nombre_sin_ligar[OF assms(2,3)])

lemma sin_ligar_globales_exec_fun:
  "sin_ligar E (globales_exec a)
   = (\<lambda>n. n \<notin> {''pd'', ''df'', ''__builtins__''} \<and> n \<notin> dom (builtins E))"
  by (rule ext) (rule sin_ligar_globales_exec)

lemma exec_script_resultado:
  "compilar codigo = Inr sc \<Longrightarrow>
   fst (exec_script E compilar codigo a h) = fst (sc E (globales_exec a) (al_empezar h))"
  by (simp add: exec_script_alt split: prod.splits)

text \<open>the dataframes after a request\<close>

lemma exec_script_frames_compilacion:
  "compilar codigo = Inl x \<Longrightarrow> frames (snd (exec_script E compilar codigo a h)) = frames h"
  by (simp add: exec_script_alt)

lemma exec_script_frames_script:
  "compilar codigo = Inr sc \<Longrightarrow>
   frames (snd (exec_script E compilar codigo a h)) = frames (snd (sc E (globales_exec a) (al_empezar h)))"
  by (simp add: exec_script_alt split: prod.splits)

lemma analizar_frames_script:
  assumes "model = Some m" and "pregunta \<noteq> []" and "\<not> df_empty (frames h a)"
    and "m (length (llm_log h)) (PromptAgente (columnas (frames h a)) (dtypes (frames h a)) pregunta) = Inr (Inr texto)"
  shows "frames (snd (analizar E model compilar pregunta a h))
         = frames (snd (exec_script E compilar (limpiar_codigo texto) a h))"
proof (cases "fst (ejecutar E compilar (limpiar_codigo texto) a h)")
  case (Inl x)
  show ?thesis
    by (simp add: analizar_bloque_falla[OF assms Inl] ejecutar_flujos)
next
  case (Inr res)
  show ?thesis
    by (simp add: analizar_bloque_termina[OF assms Inr] ejecutar_flujos split: sum.splits)
qed

lemma es_print42:
  "exec_script entorno_ejemplo compilar_ejemplo script_print42 0 host_ejemplo
   = (None, host_ejemplo\<lparr>sys_stdout := Buffer 0, buffers := [Abierto ''42''],
                         exec_log := [script_print42]\<rparr>)"
  by (simp add: exec_script_interpretar[of compilar_ejemplo script_print42
            "[SPrint (ELit (LInt 42)) []]", OF compilar_print42]
        al_empezar_campos host_ejemplo_def lookup_ejemplo stdout_write_def py_str_def str_int_42)

lemma limpiar_print_st: "limpiar_codigo ''print(st)'' = ''print(st)''"
proof -
  have s: "py_strip ''print(st)'' = ''print(st)''"
    by (simp add: py_strip_def py_isspace_def)
  have "\<not> py_in fence (py_strip ''print(st)'')"
    unfolding s by (simp add: fence_def)
  then show ?thesis using s by (rule limpiar_literal)
qed





section \<open>The properties\<close>

text \<open>
  C8. Whatever text the model returns for the analysis prompt, the code that is executed
  is that text stripped and with the fence markup removed: no \<^verbatim>\<open>```\<close> (so no
  \<^verbatim>\<open>```python\<close>) is left in it, a text with no fence is only stripped, a script wrapped
  in \<^verbatim>\<open>```python\<close> ... \<^verbatim>\<open>```\<close> or in \<^verbatim>\<open>```\<close> ... \<^verbatim>\<open>```\<close> comes out as the script alone,
  and this cleaned text is what the tab passes to \<^verbatim>\<open>exec\<close>.
\<close>

theorem limpiar_codigo_quita_fences:
  "\<not> py_in fence (limpiar_codigo texto)
   \<and> \<not> py_in fence_python (limpiar_codigo texto)
   \<and> (\<not> py_in fence (py_strip texto) \<longrightarrow> limpiar_codigo texto = py_strip texto)
   \<and> (backtick \<notin> set cuerpo \<and> py_strip texto = fence_python @ cuerpo @ fence
        \<longrightarrow> limpiar_codigo texto = cuerpo)
   \<and> (backtick \<notin> set cuerpo \<and> py_strip texto = fence @ cuerpo @ fence
          \<and> \<not> py_in fence_python (py_strip texto)
        \<longrightarrow> limpiar_codigo texto = cuerpo)
   \<and> (model = Some m \<and> pregunta \<noteq> [] \<and> \<not> df_empty (frames h a)
          \<and> m (length (llm_log h))
                (PromptAgente (columnas (frames h a)) (dtypes (frames h a)) pregunta) = Inr (Inr texto)
        \<longrightarrow> exec_log (snd (analizar E model compilar pregunta a h))
              = exec_log h @ [limpiar_codigo texto])"
  using limpiar_no_contiene[of texto] py_in_fence_python[of "limpiar_codigo texto"]
    limpiar_sin_fence[of texto] limpiar_envuelto_python[of cuerpo texto]
    limpiar_envuelto[of cuerpo texto] analizar_exec_log[of model m pregunta h a texto E compilar]
  by blast

theorem limpiar_codigo_quita_fences_witness:
  "limpiar_codigo respuesta_ejemplo = CHR 0x0A # script_print42 @ [CHR 0x0A]
   \<and> \<not> py_in fence (limpiar_codigo respuesta_ejemplo)
   \<and> exec_log (snd (analizar entorno_ejemplo (Some (modelo_fijo respuesta_ejemplo ''Son 42.''))
         compilar_ejemplo ''Cuantas citas hay?'' 0 host_ejemplo))
       = [CHR 0x0A # script_print42 @ [CHR 0x0A]]"
proof -
  let ?cuerpo = "CHR 0x0A # script_print42 @ [CHR 0x0A]"
  have c: "backtick \<notin> set ?cuerpo" by (simp add: backtick_def script_print42_def)
  have m: "modelo_fijo respuesta_ejemplo ''Son 42.'' (length (llm_log host_ejemplo))
            (PromptAgente (columnas (frames host_ejemplo 0)) (dtypes (frames host_ejemplo 0)) ''Cuantas citas hay?'')
           = Inr (Inr respuesta_ejemplo)"
    by (rule modelo_fijo_agente)
  have q: "''Cuantas citas hay?'' \<noteq> []" by simp
  note T = limpiar_codigo_quita_fences[of respuesta_ejemplo ?cuerpo
        "Some (modelo_fijo respuesta_ejemplo ''Son 42.'')" "modelo_fijo respuesta_ejemplo ''Son 42.''"
        "''Cuantas citas hay?''" host_ejemplo 0 entorno_ejemplo compilar_ejemplo]
  have A: "\<not> py_in fence (limpiar_codigo respuesta_ejemplo)"
    using T by blast
  have B: "limpiar_codigo respuesta_ejemplo = ?cuerpo"
    using T c strip_ej by blast
  have C: "exec_log (snd (analizar entorno_ejemplo (Some (modelo_fijo respuesta_ejemplo ''Son 42.''))
         compilar_ejemplo ''Cuantas citas hay?'' 0 host_ejemplo))
       = exec_log host_ejemplo @ [limpiar_codigo respuesta_ejemplo]"
    using T host_ejemplo_campos(9) m q by blast
  show ?thesis
    using A B C by (simp only: host_ejemplo_campos(4) append_Nil simp_thms)
qed




text \<open>
  C9. One press of the button executes the generated script at most once and calls the
  model at most twice, once with each prompt, so no stage is repeated. Once the first
  model call has returned a text, that text, cleaned, is executed exactly once. Every
  failure ends the request: when the first call fails, or the text of its response cannot
  be read, nothing is executed and no other call is made; when the script fails, or the
  execution block fails after it, no other call is made; when the block gives a result,
  the one interpretation call follows with that result, whatever its outcome.
\<close>

theorem un_solo_intento:
  "(exec_log (snd (analizar E model compilar pregunta a h)) = exec_log h
      \<or> (\<exists>c. exec_log (snd (analizar E model compilar pregunta a h)) = exec_log h @ [c]))
   \<and> (llm_log (snd (analizar E model compilar pregunta a h)) = llm_log h
      \<or> llm_log (snd (analizar E model compilar pregunta a h))
           = llm_log h @ [PromptAgente (columnas (frames h a)) (dtypes (frames h a)) pregunta]
      \<or> (\<exists>t. llm_log (snd (analizar E model compilar pregunta a h))
           = llm_log h @ [PromptAgente (columnas (frames h a)) (dtypes (frames h a)) pregunta,
                          PromptInterprete pregunta t]))
   \<and> (model = Some m \<and> pregunta \<noteq> [] \<and> \<not> df_empty (frames h a) \<longrightarrow>
        (\<forall>x. m (length (llm_log h))
               (PromptAgente (columnas (frames h a)) (dtypes (frames h a)) pregunta) = Inl x
             \<or> m (length (llm_log h))
               (PromptAgente (columnas (frames h a)) (dtypes (frames h a)) pregunta) = Inr (Inl x) \<longrightarrow>
             exec_log (snd (analizar E model compilar pregunta a h)) = exec_log h
           \<and> llm_log (snd (analizar E model compilar pregunta a h))
               = llm_log h @ [PromptAgente (columnas (frames h a)) (dtypes (frames h a)) pregunta])
      \<and> (\<forall>texto. m (length (llm_log h))
               (PromptAgente (columnas (frames h a)) (dtypes (frames h a)) pregunta) = Inr (Inr texto) \<longrightarrow>
             exec_log (snd (analizar E model compilar pregunta a h)) = exec_log h @ [limpiar_codigo texto]
           \<and> (\<forall>x. fst (exec_script E compilar (limpiar_codigo texto) a h) = Some x \<longrightarrow>
                 llm_log (snd (analizar E model compilar pregunta a h))
                   = llm_log h @ [PromptAgente (columnas (frames h a)) (dtypes (frames h a)) pregunta])
           \<and> (\<forall>x. fst (ejecutar E compilar (limpiar_codigo texto) a h) = Inl x \<longrightarrow>
                 llm_log (snd (analizar E model compilar pregunta a h))
                   = llm_log h @ [PromptAgente (columnas (frames h a)) (dtypes (frames h a)) pregunta])
           \<and> (\<forall>res. fst (ejecutar E compilar (limpiar_codigo texto) a h) = Inr res \<longrightarrow>
                 llm_log (snd (analizar E model compilar pregunta a h))
                   = llm_log h @ [PromptAgente (columnas (frames h a)) (dtypes (frames h a)) pregunta,
                                  PromptInterprete pregunta res])))"
proof -
  let ?pa = "PromptAgente (columnas (frames h a)) (dtypes (frames h a)) pregunta"
  let ?h' = "snd (analizar E model compilar pregunta a h)"
  have A: "exec_log ?h' = exec_log h \<and> llm_log ?h' = llm_log h @ [?pa]"
    if "model = Some m" "pregunta \<noteq> []" "\<not> df_empty (frames h a)"
       "m (length (llm_log h)) ?pa = Inl x \<or> m (length (llm_log h)) ?pa = Inr (Inl x)" for m x
    by (simp add: analizar_modelo_falla[OF that])
  have B1: "llm_log ?h' = llm_log h @ [?pa]"
    if g: "model = Some m" "pregunta \<noteq> []" "\<not> df_empty (frames h a)"
      and t: "m (length (llm_log h)) ?pa = Inr (Inr texto)"
      and e: "fst (ejecutar E compilar (limpiar_codigo texto) a h) = Inl x" for m texto x
    by (simp add: analizar_bloque_falla[OF g t e])
  have B2: "llm_log ?h' = llm_log h @ [?pa, PromptInterprete pregunta res]"
    if g: "model = Some m" "pregunta \<noteq> []" "\<not> df_empty (frames h a)"
      and t: "m (length (llm_log h)) ?pa = Inr (Inr texto)"
      and e: "fst (ejecutar E compilar (limpiar_codigo texto) a h) = Inr res" for m texto res
    by (simp add: analizar_bloque_termina[OF g t e] split: sum.splits)
  have B3: "exec_log ?h' = exec_log h @ [limpiar_codigo texto]"
    if g: "model = Some m" "pregunta \<noteq> []" "\<not> df_empty (frames h a)"
      and t: "m (length (llm_log h)) ?pa = Inr (Inr texto)" for m texto
    using g t by (rule analizar_exec_log)
  have B4: "llm_log ?h' = llm_log h @ [?pa]"
    if g: "model = Some m" "pregunta \<noteq> []" "\<not> df_empty (frames h a)"
      and t: "m (length (llm_log h)) ?pa = Inr (Inr texto)"
      and e: "fst (exec_script E compilar (limpiar_codigo texto) a h) = Some x" for m texto x
  proof -
    have "fst (ejecutar E compilar (limpiar_codigo texto) a h) = Inl x"
      by (simp add: ejecutar_script_falla[OF e])
    then show ?thesis using B1[OF g t] by blast
  qed
  have bounds: "(exec_log ?h' = exec_log h \<or> (\<exists>c. exec_log ?h' = exec_log h @ [c]))
     \<and> (llm_log ?h' = llm_log h \<or> llm_log ?h' = llm_log h @ [?pa]
        \<or> (\<exists>t. llm_log ?h' = llm_log h @ [?pa, PromptInterprete pregunta t]))"
  proof (cases "model = None \<or> pregunta = [] \<or> df_empty (frames h a)")
    case True
    then show ?thesis by (simp add: analizar_rechaza)
  next
    case False
    then obtain m0 where g: "model = Some m0" "pregunta \<noteq> []" "\<not> df_empty (frames h a)"
      by auto
    show ?thesis
    proof (cases "m0 (length (llm_log h)) ?pa")
      case (Inl x)
      then show ?thesis using A[OF g, of x] by simp
    next
      case (Inr resp)
      show ?thesis
      proof (cases resp)
        case (Inl x)
        then show ?thesis using A[OF g, of x] Inr by simp
      next
        case inner: (Inr texto)
        have t: "m0 (length (llm_log h)) ?pa = Inr (Inr texto)" using Inr inner by simp
        show ?thesis
        proof (cases "fst (ejecutar E compilar (limpiar_codigo texto) a h)")
          case (Inl x)
          then show ?thesis using B1[OF g t] B3[OF g t] by blast
        next
          case (Inr res)
          then show ?thesis using B2[OF g t] B3[OF g t] by blast
        qed
      qed
    qed
  qed
  show ?thesis using bounds A[of m] B1[of m] B2[of m] B3[of m] B4[of m] by blast
qed

theorem un_solo_intento_witness:
  "exec_log (snd (analizar entorno_ejemplo (Some (modelo_fijo ''raise ValueError'' ''Son 42.''))
        compilar_ejemplo ''Cuantas citas hay?'' 0 host_ejemplo)) = [''raise ValueError'']
   \<and> llm_log (snd (analizar entorno_ejemplo (Some (modelo_fijo ''raise ValueError'' ''Son 42.''))
        compilar_ejemplo ''Cuantas citas hay?'' 0 host_ejemplo))
       = [PromptAgente [''Fecha'', ''Nombre_Sede'', ''Nombre_Completo_Barbero'', ''Nombre_Servicio'', ''Precio'']
            [''datetime64[ns]'', ''object'', ''object'', ''object'', ''int64''] ''Cuantas citas hay?'']"
proof -
  let ?m = "modelo_fijo ''raise ValueError'' ''Son 42.''"
  let ?pa = "PromptAgente (columnas (frames host_ejemplo 0)) (dtypes (frames host_ejemplo 0)) ''Cuantas citas hay?''"
  have rs: "fst (exec_script entorno_ejemplo compilar_ejemplo (limpiar_codigo ''raise ValueError'') 0
      host_ejemplo) = Some ValueError"
    by (simp add: limpiar_raise_valueerror es_raise_valueerror)
  have q: "''Cuantas citas hay?'' \<noteq> []" by simp
  have mm: "?m (length (llm_log host_ejemplo)) ?pa = Inr (Inr ''raise ValueError'')"
    by (rule modelo_fijo_agente)
  note A = un_solo_intento[where E = entorno_ejemplo and model = "Some ?m" and m = ?m
      and compilar = compilar_ejemplo and pregunta = "''Cuantas citas hay?''" and h = host_ejemplo and a = 0]
  have 1: "exec_log (snd (analizar entorno_ejemplo (Some ?m) compilar_ejemplo ''Cuantas citas hay?'' 0 host_ejemplo))
       = exec_log host_ejemplo @ [limpiar_codigo ''raise ValueError'']"
    using A q host_ejemplo_campos(9) mm by blast
  have 2: "llm_log (snd (analizar entorno_ejemplo (Some ?m) compilar_ejemplo ''Cuantas citas hay?'' 0 host_ejemplo))
       = llm_log host_ejemplo @ [?pa]"
    using A q host_ejemplo_campos(9) mm rs by blast
  show ?thesis
    using 1 2
    by (simp only: host_ejemplo_campos(3,4,7,8) limpiar_raise_valueerror append_Nil simp_thms)
qed










text \<open>
  C4, as stated, fails: line 148 is \<^verbatim>\<open>df = df_filtrado\<close>, so the script receives the
  caller's dataframe itself. After the script \<^verbatim>\<open>df['Precio'] = 0\<close>, which terminates
  normally, the column \<open>Precio\<close> of the caller's dataframe holds 0 in every row.
\<close>

theorem script_muta_el_dataframe:
  "map (\<lambda>r. r ! 4) (filas (frames host_ejemplo 0)) = [VInt 20000, VInt 15000, VInt 20000]
   \<and> fst (ejecutar entorno_ejemplo compilar_ejemplo ''df['Precio'] = 0'' 0 host_ejemplo) = Inr []
   \<and> map (\<lambda>r. r ! 4)
       (filas (frames (snd (ejecutar entorno_ejemplo compilar_ejemplo ''df['Precio'] = 0'' 0 host_ejemplo)) 0))
       = [VInt 0, VInt 0, VInt 0]"
proof -
  have 1: "map (\<lambda>r. r ! 4) (filas (frames host_ejemplo 0)) = [VInt 20000, VInt 15000, VInt 20000]"
    by (simp add: host_ejemplo_def citas_ejemplo_def)
  have 2: "fst (ejecutar entorno_ejemplo compilar_ejemplo ''df['Precio'] = 0'' 0 host_ejemplo) = Inr []"
    by (simp add: ejecutar_exec es_setcol stdout_getvalue_def)
  have 3: "frames (snd (ejecutar entorno_ejemplo compilar_ejemplo ''df['Precio'] = 0'' 0 host_ejemplo)) 0
       = frame_setitem ''Precio'' (LInt 0) citas_ejemplo"
    by (simp add: ejecutar_flujos es_setcol)
  show ?thesis
    using 1 2 by (simp only: 3 setitem_citas simp_thms)
qed

text \<open>
  C4, amended. The page itself never changes a dataframe, and it makes no copy for the
  script: after a request every dataframe of the process, the caller's included, is
  exactly as the generated script left it. When no script is run (a test of lines 112
  to 114 rejects the request, the model call fails, or the text does not compile) the
  dataframes are unchanged; they are unchanged as well when the script that runs leaves
  them as it found them, as a script of the fragment without column assignment does. A
  script that changes the dataframe in place changes the caller's dataframe.
\<close>

theorem dataframe_como_lo_deja_el_script:
  "frames (snd (ejecutar E compilar codigo a h)) = frames (snd (exec_script E compilar codigo a h))
   \<and> (compilar codigo = Inl x \<longrightarrow> frames (snd (ejecutar E compilar codigo a h)) = frames h)
   \<and> (compilar codigo = Inr sc \<and> frames (snd (sc E (globales_exec a) (al_empezar h))) = frames h
        \<longrightarrow> frames (snd (ejecutar E compilar codigo a h)) = frames h)
   \<and> (compilar codigo = Inr (interpretar ss) \<and> (\<forall>s\<in>set ss. \<not> asigna_columna s)
        \<longrightarrow> frames (snd (ejecutar E compilar codigo a h)) = frames h)
   \<and> (model = None \<or> pregunta = [] \<or> df_empty (frames h a)
        \<longrightarrow> frames (snd (analizar E model compilar pregunta a h)) = frames h)
   \<and> (model = Some m \<and> pregunta \<noteq> [] \<and> \<not> df_empty (frames h a)
        \<and> (m (length (llm_log h))
              (PromptAgente (columnas (frames h a)) (dtypes (frames h a)) pregunta) = Inl x
           \<or> m (length (llm_log h))
              (PromptAgente (columnas (frames h a)) (dtypes (frames h a)) pregunta) = Inr (Inl x))
        \<longrightarrow> frames (snd (analizar E model compilar pregunta a h)) = frames h)
   \<and> (model = Some m \<and> pregunta \<noteq> [] \<and> \<not> df_empty (frames h a)
        \<and> m (length (llm_log h))
              (PromptAgente (columnas (frames h a)) (dtypes (frames h a)) pregunta) = Inr (Inr texto)
        \<longrightarrow> frames (snd (analizar E model compilar pregunta a h))
              = frames (snd (exec_script E compilar (limpiar_codigo texto) a h)))"
proof -
  have 1: "frames (snd (ejecutar E compilar codigo a h)) = frames (snd (exec_script E compilar codigo a h))"
    by (rule ejecutar_flujos)
  have 2: "frames (snd (ejecutar E compilar codigo a h)) = frames h" if "compilar codigo = Inl x"
    by (simp only: 1 exec_script_frames_compilacion[where compilar = compilar and codigo = codigo, OF that])
  have 3: "frames (snd (ejecutar E compilar codigo a h)) = frames h"
    if "compilar codigo = Inr sc" "frames (snd (sc E (globales_exec a) (al_empezar h))) = frames h"
    by (simp only: 1 exec_script_frames_script[where compilar = compilar and codigo = codigo, OF that(1)] that(2))
  have 4: "frames (snd (ejecutar E compilar codigo a h)) = frames h"
    if c: "compilar codigo = Inr (interpretar ss)" and n: "\<forall>s\<in>set ss. \<not> asigna_columna s"
    by (simp only: 1 exec_script_frames_script[where compilar = compilar and codigo = codigo, OF c] interpretar_sin_asignar[OF n] al_empezar_campos)
  have 5: "frames (snd (analizar E model compilar pregunta a h)) = frames h"
    if "model = None \<or> pregunta = [] \<or> df_empty (frames h a)"
    by (simp add: analizar_rechaza[OF that])
  have 6: "frames (snd (analizar E model compilar pregunta a h)) = frames h"
    if "model = Some m" "pregunta \<noteq> []" "\<not> df_empty (frames h a)"
       "m (length (llm_log h)) (PromptAgente (columnas (frames h a)) (dtypes (frames h a)) pregunta) = Inl x
        \<or> m (length (llm_log h)) (PromptAgente (columnas (frames h a)) (dtypes (frames h a)) pregunta) = Inr (Inl x)"
    by (simp add: analizar_modelo_falla[OF that])
  have 7: "frames (snd (analizar E model compilar pregunta a h))
              = frames (snd (exec_script E compilar (limpiar_codigo texto) a h))"
    if "model = Some m" "pregunta \<noteq> []" "\<not> df_empty (frames h a)"
       "m (length (llm_log h)) (PromptAgente (columnas (frames h a)) (dtypes (frames h a)) pregunta) = Inr (Inr texto)"
    using that by (rule analizar_frames_script)
  show ?thesis using 1 2 3 4 5 6 7 by blast
qed

theorem dataframe_como_lo_deja_el_script_witness:
  "compilar_ejemplo script_print42 = Inr (interpretar [SPrint (ELit (LInt 42)) []])
   \<and> \<not> asigna_columna (SPrint (ELit (LInt 42)) [])
   \<and> frames (snd (ejecutar entorno_ejemplo compilar_ejemplo script_print42 0 host_ejemplo))
       = frames host_ejemplo
   \<and> frames (snd (analizar entorno_ejemplo (Some (modelo_fijo script_print42 ''Son 42.''))
          compilar_ejemplo ''Cuantas citas hay?'' 0 host_ejemplo))
       = frames host_ejemplo
   \<and> frames (snd (analizar entorno_ejemplo None compilar_ejemplo ''Cuantas citas hay?'' 0 host_ejemplo))
       = frames host_ejemplo"
proof -
  let ?m = "modelo_fijo script_print42 ''Son 42.''"
  have n: "\<forall>s\<in>set [SPrint (ELit (LInt 42)) []]. \<not> asigna_columna s" by simp
  have q: "''Cuantas citas hay?'' \<noteq> []" by simp
  have mm: "?m (length (llm_log host_ejemplo))
      (PromptAgente (columnas (frames host_ejemplo 0)) (dtypes (frames host_ejemplo 0)) ''Cuantas citas hay?'')
      = Inr (Inr script_print42)"
    by (rule modelo_fijo_agente)
  note A = dataframe_como_lo_deja_el_script[where E = entorno_ejemplo and compilar = compilar_ejemplo
      and codigo = script_print42 and a = 0 and h = host_ejemplo
      and ss = "[SPrint (ELit (LInt 42)) []]"
      and model = "Some ?m" and m = ?m and pregunta = "''Cuantas citas hay?''"
      and texto = script_print42]
  note B = dataframe_como_lo_deja_el_script[where E = entorno_ejemplo and compilar = compilar_ejemplo
      and a = 0 and h = host_ejemplo and model = None and pregunta = "''Cuantas citas hay?''"]
  have 1: "frames (snd (ejecutar entorno_ejemplo compilar_ejemplo script_print42 0 host_ejemplo))
       = frames host_ejemplo"
    using A compilar_print42 n by blast
  have 2: "frames (snd (analizar entorno_ejemplo (Some ?m) compilar_ejemplo ''Cuantas citas hay?'' 0 host_ejemplo))
       = frames (snd (exec_script entorno_ejemplo compilar_ejemplo (limpiar_codigo script_print42) 0 host_ejemplo))"
    using A q host_ejemplo_campos(9) mm by blast
  have 3: "frames (snd (analizar entorno_ejemplo None compilar_ejemplo ''Cuantas citas hay?'' 0 host_ejemplo))
       = frames host_ejemplo"
    using B by blast
  have 4: "frames (snd (exec_script entorno_ejemplo compilar_ejemplo (limpiar_codigo script_print42) 0 host_ejemplo))
       = frames host_ejemplo"
    by (simp add: limpiar_print42 es_print42)
  show ?thesis
    using compilar_print42 1 2 3 4 by simp
qed




text \<open>
  C1, as stated, fails: \<^verbatim>\<open>exec\<close> adds the builtins to the dictionary of line 150, so names
  outside \<open>pd\<close> and \<open>df\<close> resolve. The script \<^verbatim>\<open>print(__import__('os').getcwd())\<close> references
  \<open>print\<close> and \<open>__import__\<close>, neither of which the dictionary binds; it runs without error
  and its result is the working directory of the process.
\<close>

theorem script_alcanza_builtins:
  "dom (globales 0) = {''pd'', ''df''}
   \<and> compilar_ejemplo ''print(__import__('os').getcwd())''
       = Inr (interpretar [SPrint (EImportCall ''os'' ''getcwd'') [CHR 0x0A]])
   \<and> nombres (SPrint (EImportCall ''os'' ''getcwd'') [CHR 0x0A]) = [''print'', ''__import__'']
   \<and> fst (exec_script entorno_ejemplo compilar_ejemplo ''print(__import__('os').getcwd())'' 0 host_ejemplo)
       = None
   \<and> fst (ejecutar entorno_ejemplo compilar_ejemplo ''print(__import__('os').getcwd())'' 0 host_ejemplo)
       = Inr (''/app'' @ [CHR 0x0A])"
  by (simp add: dom_globales compilar_os ejecutar_exec es_os stdout_getvalue_def)

text \<open>
  C1, amended. Every script runs with the dictionary of line 150, to which \<^verbatim>\<open>exec\<close> adds
  \<^verbatim>\<open>__builtins__\<close>; a name resolves there, then in the builtins. So reading a name raises
  \<^verbatim>\<open>NameError\<close> exactly when the name is none of \<open>pd\<close>, \<open>df\<close>, \<open>__builtins__\<close> and is not a
  builtin: the variables of the page (\<open>st\<close>, \<open>model\<close>, \<open>df_filtrado\<close>) are not reachable by
  name, the builtins (\<open>print\<close>, \<open>__import__\<close>, \<open>open\<close>) are. In a script made of statements
  of the fragment, which run in order with no handler, the first statement reached that
  reads such a name ends the script with the \<^verbatim>\<open>NameError\<close> of the first such name it reads;
  the tab then shows the error message with that exception and makes no other model call.
  (In Python at large a reference can sit in a branch that is not run, or under a handler
  that catches the error: nothing is claimed of such scripts.)
\<close>

theorem nombre_no_concedido_falla:
  "(compilar codigo = Inr sc \<longrightarrow>
      fst (exec_script E compilar codigo a h) = fst (sc E (globales_exec a) (al_empezar h)))
   \<and> (lookup_name E (globales_exec a) n = Inl x
      \<longleftrightarrow> x = NameError n \<and> n \<notin> {''pd'', ''df'', ''__builtins__''} \<and> n \<notin> dom (builtins E))
   \<and> (compilar codigo = Inr (interpretar (previos @ s # resto))
        \<and> fst (interpretar previos E (globales_exec a) (al_empezar h)) = None
        \<and> find (\<lambda>n. n \<notin> {''pd'', ''df'', ''__builtins__''} \<and> n \<notin> dom (builtins E)) (nombres s) = Some n
      \<longrightarrow> fst (exec_script E compilar codigo a h) = Some (NameError n)
        \<and> fst (ejecutar E compilar codigo a h) = Inl (NameError n)
        \<and> (model = Some m \<and> pregunta \<noteq> [] \<and> \<not> df_empty (frames h a)
             \<and> m (length (llm_log h))
                  (PromptAgente (columnas (frames h a)) (dtypes (frames h a)) pregunta) = Inr (Inr texto)
             \<and> limpiar_codigo texto = codigo
           \<longrightarrow> fst (analizar E model compilar pregunta a h) = None
             \<and> ui (snd (analizar E model compilar pregunta a h))
                 = ui h @ [StCode codigo, StError Oops, StException (NameError n)]
             \<and> llm_log (snd (analizar E model compilar pregunta a h))
                 = llm_log h @ [PromptAgente (columnas (frames h a)) (dtypes (frames h a)) pregunta]))"
proof -
  have 1: "compilar codigo = Inr sc \<longrightarrow>
      fst (exec_script E compilar codigo a h) = fst (sc E (globales_exec a) (al_empezar h))"
    using exec_script_resultado[of compilar codigo sc E a h] by blast
  have 2: "lookup_name E (globales_exec a) n = Inl x
      \<longleftrightarrow> x = NameError n \<and> n \<notin> {''pd'', ''df'', ''__builtins__''} \<and> n \<notin> dom (builtins E)"
    by (simp only: lookup_name_sin_ligar sin_ligar_globales_exec)
  have 3: "fst (exec_script E compilar codigo a h) = Some (NameError n)"
    if "compilar codigo = Inr (interpretar (previos @ s # resto))"
       "fst (interpretar previos E (globales_exec a) (al_empezar h)) = None"
       "find (\<lambda>n. n \<notin> {''pd'', ''df'', ''__builtins__''} \<and> n \<notin> dom (builtins E)) (nombres s) = Some n"
    using that exec_script_nombre_sin_ligar[of compilar codigo previos s resto E a h n]
    by (simp add: sin_ligar_globales_exec_fun)
  have 4: "fst (ejecutar E compilar codigo a h) = Inl (NameError n)"
    if "fst (exec_script E compilar codigo a h) = Some (NameError n)"
    by (simp add: ejecutar_script_falla[OF that])
  have 5: "fst (analizar E model compilar pregunta a h) = None
             \<and> ui (snd (analizar E model compilar pregunta a h))
                 = ui h @ [StCode codigo, StError Oops, StException (NameError n)]
             \<and> llm_log (snd (analizar E model compilar pregunta a h))
                 = llm_log h @ [PromptAgente (columnas (frames h a)) (dtypes (frames h a)) pregunta]"
    if e: "fst (ejecutar E compilar codigo a h) = Inl (NameError n)"
      and g: "model = Some m" "pregunta \<noteq> []" "\<not> df_empty (frames h a)"
        "m (length (llm_log h)) (PromptAgente (columnas (frames h a)) (dtypes (frames h a)) pregunta) = Inr (Inr texto)"
      and c: "limpiar_codigo texto = codigo"
  proof -
    have e': "fst (ejecutar E compilar (limpiar_codigo texto) a h) = Inl (NameError n)"
      using e c by simp
    show ?thesis
      using c by (simp add: analizar_bloque_falla[OF g e'])
  qed
  have 6: "compilar codigo = Inr (interpretar (previos @ s # resto))
        \<and> fst (interpretar previos E (globales_exec a) (al_empezar h)) = None
        \<and> find (\<lambda>n. n \<notin> {''pd'', ''df'', ''__builtins__''} \<and> n \<notin> dom (builtins E)) (nombres s) = Some n
      \<longrightarrow> fst (exec_script E compilar codigo a h) = Some (NameError n)
        \<and> fst (ejecutar E compilar codigo a h) = Inl (NameError n)
        \<and> (model = Some m \<and> pregunta \<noteq> [] \<and> \<not> df_empty (frames h a)
             \<and> m (length (llm_log h))
                  (PromptAgente (columnas (frames h a)) (dtypes (frames h a)) pregunta) = Inr (Inr texto)
             \<and> limpiar_codigo texto = codigo
           \<longrightarrow> fst (analizar E model compilar pregunta a h) = None
             \<and> ui (snd (analizar E model compilar pregunta a h))
                 = ui h @ [StCode codigo, StError Oops, StException (NameError n)]
             \<and> llm_log (snd (analizar E model compilar pregunta a h))
                 = llm_log h @ [PromptAgente (columnas (frames h a)) (dtypes (frames h a)) pregunta])"
  proof (intro impI, elim conjE)
    assume p: "compilar codigo = Inr (interpretar (previos @ s # resto))"
      "fst (interpretar previos E (globales_exec a) (al_empezar h)) = None"
      "find (\<lambda>n. n \<notin> {''pd'', ''df'', ''__builtins__''} \<and> n \<notin> dom (builtins E)) (nombres s) = Some n"
    have e: "fst (exec_script E compilar codigo a h) = Some (NameError n)"
      using p by (rule 3)
    have j: "fst (ejecutar E compilar codigo a h) = Inl (NameError n)"
      using e by (rule 4)
    show "fst (exec_script E compilar codigo a h) = Some (NameError n)
        \<and> fst (ejecutar E compilar codigo a h) = Inl (NameError n)
        \<and> (model = Some m \<and> pregunta \<noteq> [] \<and> \<not> df_empty (frames h a)
             \<and> m (length (llm_log h))
                  (PromptAgente (columnas (frames h a)) (dtypes (frames h a)) pregunta) = Inr (Inr texto)
             \<and> limpiar_codigo texto = codigo
           \<longrightarrow> fst (analizar E model compilar pregunta a h) = None
             \<and> ui (snd (analizar E model compilar pregunta a h))
                 = ui h @ [StCode codigo, StError Oops, StException (NameError n)]
             \<and> llm_log (snd (analizar E model compilar pregunta a h))
                 = llm_log h @ [PromptAgente (columnas (frames h a)) (dtypes (frames h a)) pregunta])"
      using e j 5[OF j] by simp
  qed
  show ?thesis
    using 1 2 6 by (intro conjI)
qed

theorem nombre_no_concedido_falla_witness:
  "compilar_ejemplo ''print(st)'' = Inr (interpretar ([] @ SPrint (EName ''st'') [CHR 0x0A] # []))
   \<and> nombres (SPrint (EName ''st'') [CHR 0x0A]) = [''print'', ''st'']
   \<and> ''print'' \<in> dom (builtins entorno_ejemplo)
   \<and> ''st'' \<notin> dom (builtins entorno_ejemplo)
   \<and> fst (ejecutar entorno_ejemplo compilar_ejemplo ''print(st)'' 0 host_ejemplo) = Inl (NameError ''st'')
   \<and> ui (snd (analizar entorno_ejemplo (Some (modelo_fijo ''print(st)'' ''Son 42.''))
          compilar_ejemplo ''Cuantas citas hay?'' 0 host_ejemplo))
       = [StCode ''print(st)'', StError Oops, StException (NameError ''st'')]
   \<and> llm_log (snd (analizar entorno_ejemplo (Some (modelo_fijo ''print(st)'' ''Son 42.''))
          compilar_ejemplo ''Cuantas citas hay?'' 0 host_ejemplo))
       = [PromptAgente [''Fecha'', ''Nombre_Sede'', ''Nombre_Completo_Barbero'', ''Nombre_Servicio'', ''Precio'']
            [''datetime64[ns]'', ''object'', ''object'', ''object'', ''int64''] ''Cuantas citas hay?'']"
proof -
  let ?m = "modelo_fijo ''print(st)'' ''Son 42.''"
  let ?s = "SPrint (EName ''st'') [CHR 0x0A]"
  have c: "compilar_ejemplo ''print(st)'' = Inr (interpretar ([] @ ?s # []))"
    by (simp add: compilar_print_st)
  have i: "fst (interpretar [] entorno_ejemplo (globales_exec 0) (al_empezar host_ejemplo)) = None"
    by simp
  have p: "''print'' \<in> dom (builtins entorno_ejemplo)"
    by (rule entorno_ejemplo_builtins)
  have s: "''st'' \<notin> dom (builtins entorno_ejemplo)"
    by (rule entorno_ejemplo_builtins)
  have f: "find (\<lambda>n. n \<notin> {''pd'', ''df'', ''__builtins__''} \<and> n \<notin> dom (builtins entorno_ejemplo)) (nombres ?s) = Some ''st''"
    using p s by simp
  have q: "''Cuantas citas hay?'' \<noteq> []" by simp
  have mm: "?m (length (llm_log host_ejemplo))
      (PromptAgente (columnas (frames host_ejemplo 0)) (dtypes (frames host_ejemplo 0)) ''Cuantas citas hay?'')
      = Inr (Inr ''print(st)'')"
    by (rule modelo_fijo_agente)
  note A = nombre_no_concedido_falla[where E = entorno_ejemplo and compilar = compilar_ejemplo
      and codigo = "''print(st)''" and a = 0 and h = host_ejemplo and n = "''st''"
      and previos = "[]" and s = ?s and resto = "[]"
      and model = "Some ?m" and m = ?m and pregunta = "''Cuantas citas hay?''"
      and texto = "''print(st)''"]
  have 1: "fst (ejecutar entorno_ejemplo compilar_ejemplo ''print(st)'' 0 host_ejemplo) = Inl (NameError ''st'')"
    using A c i f by blast
  have 2: "ui (snd (analizar entorno_ejemplo (Some ?m) compilar_ejemplo ''Cuantas citas hay?'' 0 host_ejemplo))
       = ui host_ejemplo @ [StCode ''print(st)'', StError Oops, StException (NameError ''st'')]"
    using A c i f q host_ejemplo_campos(9) mm limpiar_print_st by blast
  have 3: "llm_log (snd (analizar entorno_ejemplo (Some ?m) compilar_ejemplo ''Cuantas citas hay?'' 0 host_ejemplo))
       = llm_log host_ejemplo @ [PromptAgente (columnas (frames host_ejemplo 0)) (dtypes (frames host_ejemplo 0)) ''Cuantas citas hay?'']"
    using A c i f q host_ejemplo_campos(9) mm limpiar_print_st by blast
  have nn: "nombres ?s = [''print'', ''st'']" by simp
  show ?thesis
    using c nn p s 1 2 3
    by (simp only: host_ejemplo_campos(3,5,7,8) append_Nil simp_thms)
qed




end
